theory Spec2Isabelle
  imports Main
begin

section \<open>Strings and regular expressions of the host language\<close>

text \<open>
  The checker is a JavaScript class.  A JavaScript string is a sequence of UTF-16 code
  units; \<open>length\<close>, \<open>substring\<close>, \<open>charAt\<close> and the regular expressions of the source
  (none has the \<open>u\<close> flag) all work on code units.  A code unit is modelled by its number;
  the literals of the source that are not ASCII are written by their code points.
\<close>

type_synonym jsstring = "nat list"

named_theorems js_eval \<open>unfolding rules for evaluating the model on concrete inputs\<close>

definition ascii :: "string \<Rightarrow> jsstring" where
  [js_eval]: "ascii s = map of_char s"

subsection \<open>Regular expressions\<close>

datatype regex =
    Eps
  | Lit nat
  | AnyChar
  | Digit
  | Space
  | OneOf "nat list"
  | Seq regex regex
  | Alt regex regex
  | Opt regex
  | Star regex
  | StarLazy regex
  | Group regex

text \<open>\<open>r+\<close> is \<open>r\<close> followed by \<open>r*\<close>; a string literal is the sequence of its code units.\<close>

definition Plus :: "regex \<Rightarrow> regex" where
  [js_eval]: "Plus r = Seq r (Star r)"

fun str :: "jsstring \<Rightarrow> regex" where
  "str [] = Eps"
| "str [c] = Lit c"
| "str (c # cs) = Seq (Lit c) (str cs)"

text \<open>
  A regular expression literal: its body and its \<open>i\<close> flag.
\<close>

datatype regexp = RegExp regex bool

text \<open>
  Case-insensitive comparison canonicalises both code units.  Every letter in an \<open>i\<close>-flagged
  pattern of the source is ASCII or a CJK ideograph, and without the \<open>u\<close> flag no code unit
  above 127 canonicalises to an ASCII one, so folding \<open>a..z\<close> onto \<open>A..Z\<close> decides the
  same matches as the host's Canonicalize for these patterns.
\<close>

definition canon :: "nat \<Rightarrow> nat" where
  [js_eval]: "canon c = (if 97 \<le> c \<and> c \<le> 122 then c - 32 else c)"

definition is_line_terminator :: "nat \<Rightarrow> bool" where
  [js_eval]: "is_line_terminator c = (c = 10 \<or> c = 13 \<or> c = 8232 \<or> c = 8233)"

definition is_digit :: "nat \<Rightarrow> bool" where
  [js_eval]: "is_digit c = (48 \<le> c \<and> c \<le> 57)"

definition is_space :: "nat \<Rightarrow> bool" where
  [js_eval]: "is_space c =
     (c = 9 \<or> c = 10 \<or> c = 11 \<or> c = 12 \<or> c = 13 \<or> c = 32 \<or> c = 160 \<or> c = 5760
      \<or> (8192 \<le> c \<and> c \<le> 8202) \<or> c = 8232 \<or> c = 8233 \<or> c = 8239 \<or> c = 8287
      \<or> c = 12288 \<or> c = 65279)"

text \<open>
  The matcher is the backtracking matcher of the language definition, written as a list of
  successes: from a state (the rest of the input, and the text of capture group 1) it
  returns every way the expression can match a prefix of the rest, in the order in which
  backtracking would try them.  A greedy quantifier tries one more iteration before it
  tries to stop, a lazy one stops first; an iteration that consumes nothing is rejected.
\<close>

type_synonym mstate = "jsstring \<times> jsstring option"

definition progress :: "mstate \<Rightarrow> mstate \<Rightarrow> bool" where
  [js_eval]: "progress st st' = (length (fst st') < length (fst st))"

fun one_char :: "(nat \<Rightarrow> bool) \<Rightarrow> mstate \<Rightarrow> mstate list" where
  "one_char ok ([], g) = []"
| "one_char ok (c # t, g) = (if ok c then [(t, g)] else [])"

function (sequential) rmatch :: "bool \<Rightarrow> regex \<Rightarrow> mstate \<Rightarrow> mstate list" where
  "rmatch ic Eps st = [st]"
| "rmatch ic (Lit p) st = one_char (\<lambda>c. if ic then canon c = canon p else c = p) st"
| "rmatch ic AnyChar st = one_char (\<lambda>c. \<not> is_line_terminator c) st"
| "rmatch ic Digit st = one_char is_digit st"
| "rmatch ic Space st = one_char is_space st"
| "rmatch ic (OneOf cs) st = one_char (\<lambda>c. c \<in> set cs) st"
| "rmatch ic (Seq r1 r2) st = concat (map (rmatch ic r2) (rmatch ic r1 st))"
| "rmatch ic (Alt r1 r2) st = rmatch ic r1 st @ rmatch ic r2 st"
| "rmatch ic (Opt r) st = filter (progress st) (rmatch ic r st) @ [st]"
| "rmatch ic (Star r) st =
     concat (map (rmatch ic (Star r)) (filter (progress st) (rmatch ic r st))) @ [st]"
| "rmatch ic (StarLazy r) st =
     st # concat (map (rmatch ic (StarLazy r)) (filter (progress st) (rmatch ic r st)))"
| "rmatch ic (Group r) st =
     map (\<lambda>st'. (fst st', Some (take (length (fst st) - length (fst st')) (fst st))))
       (rmatch ic r st)"
  by pat_completeness auto
termination
  by (relation "measures [\<lambda>(ic, r, st). size r, \<lambda>(ic, r, st). length (fst st)]")
     (auto simp: progress_def)

text \<open>
  \<open>exec\<close> looks for the leftmost start position at which the expression matches and
  returns the matched text (\<open>match[0]\<close>) and the text of group 1 (\<open>match[1]\<close>, \<open>None\<close> when
  the group took no part).  \<open>String.prototype.match\<close> with a regular expression without the
  \<open>g\<close> flag returns the same, and \<open>test\<close> tells whether there is a match.
\<close>

fun exec_from :: "bool \<Rightarrow> regex \<Rightarrow> jsstring \<Rightarrow> (jsstring \<times> jsstring option) option" where
  "exec_from ic r s =
     (case rmatch ic r (s, None) of
        st' # _ \<Rightarrow> Some (take (length s - length (fst st')) s, snd st')
      | [] \<Rightarrow> (case s of [] \<Rightarrow> None | _ # t \<Rightarrow> exec_from ic r t))"

fun match :: "jsstring \<Rightarrow> regexp \<Rightarrow> (jsstring \<times> jsstring option) option" where
  "match s (RegExp r ic) = exec_from ic r s"

definition test :: "regexp \<Rightarrow> jsstring \<Rightarrow> bool" where
  "test p s = (match s p \<noteq> None)"

text \<open>A capture that is \<open>undefined\<close> prints as that word in a template literal.\<close>

fun interpolate :: "jsstring option \<Rightarrow> jsstring" where
  "interpolate None = ascii ''undefined''"
| "interpolate (Some s) = s"

section \<open>Masking a code\<close>

text \<open>
  \<open>maskCode(code)\<close>: \<open>!code\<close> holds of the empty string; \<open>substring(0, 4)\<close> is the first
  four code units and \<open>substring(code.length - 4)\<close> the last four (the length is at least 8
  there).
\<close>

definition maskCode :: "jsstring \<Rightarrow> jsstring" where
  "maskCode c =
     (if c = [] \<or> length c < 8 then ascii ''****-****''
      else take 4 c @ ascii ''-****-****-'' @ drop (length c - 4) c)"

section \<open>Outcome records\<close>

text \<open>
  A redemption produces an object with the fields \<open>code\<close> (always the masked code),
  \<open>status\<close>, \<open>message\<close> and \<open>timestamp\<close>; a balance lookup produces one with \<open>balance\<close>
  and \<open>currency\<close> as well.  \<open>None\<close> stands for \<open>null\<close>.  Since \<open>code\<close> names the field, the
  parameter \<open>code\<close> of the methods is written \<open>c\<close>.
\<close>

record outcome =
  code :: jsstring
  status :: jsstring
  message :: "jsstring option"
  timestamp :: jsstring

record balance_outcome = outcome +
  balance :: "jsstring option"
  currency :: "jsstring option"

text \<open>
  The status strings of the source, by code point: U+672A U+77E5 (unknown), U+5DF2 U+5151
  U+6362 (redeemed), U+65E0 U+6548 (invalid), U+6709 U+6548 (valid), U+9519 U+8BEF (error),
  U+5931 U+8D25 (failed), U+5151 U+6362 U+5931 U+8D25 (redemption failed).
\<close>

definition status_unknown :: jsstring where
  [js_eval]: "status_unknown = [26410, 30693]"

definition status_redeemed :: jsstring where
  [js_eval]: "status_redeemed = [24050, 20817, 25442]"

definition status_invalid :: jsstring where
  [js_eval]: "status_invalid = [26080, 25928]"

definition status_valid :: jsstring where
  [js_eval]: "status_valid = [26377, 25928]"

definition status_error :: jsstring where
  [js_eval]: "status_error = [38169, 35823]"

definition status_failed :: jsstring where
  [js_eval]: "status_failed = [22833, 36133]"

definition status_redeem_failed :: jsstring where
  [js_eval]: "status_redeem_failed = [20817, 25442, 22833, 36133]"

section \<open>The checker's configuration\<close>

text \<open>
  The configuration after the constructor has filled in the defaults.  \<open>retryAttempts\<close> is a
  count; the constructor replaces a missing or zero value by 3.
\<close>

record config =
  headless :: bool
  delayBetweenCards :: nat
  retryAttempts :: nat
  timeout :: nat
  region :: jsstring
  screenshotOnError :: bool

record options =
  opt_headless :: "bool option"
  opt_delayBetweenCards :: "nat option"
  opt_retryAttempts :: "nat option"
  opt_timeout :: "nat option"
  opt_region :: "jsstring option"
  opt_screenshotOnError :: "bool option"

fun or_default :: "nat option \<Rightarrow> nat \<Rightarrow> nat" where
  "or_default None d = d"
| "or_default (Some n) d = (if n = 0 then d else n)"

definition constructor :: "options \<Rightarrow> config" where
  "constructor cfg =
     \<lparr> headless = (opt_headless cfg \<noteq> Some False),
       delayBetweenCards = or_default (opt_delayBetweenCards cfg) 3000,
       retryAttempts = or_default (opt_retryAttempts cfg) 3,
       timeout = or_default (opt_timeout cfg) 30000,
       region = (case opt_region cfg of None \<Rightarrow> ascii ''cn''
                 | Some r \<Rightarrow> if r = [] then ascii ''cn'' else r),
       screenshotOnError = (opt_screenshotOnError cfg \<noteq> Some False) \<rparr>"

section \<open>Classifying a result page\<close>

fun seqs :: "regex list \<Rightarrow> regex" where
  "seqs [] = Eps"
| "seqs [r] = r"
| "seqs (r # rs) = Seq r (seqs rs)"

fun alts :: "regex list \<Rightarrow> regex" where
  "alts [] = OneOf []"
| "alts [r] = r"
| "alts (r # rs) = Alt r (alts rs)"

text \<open>The capture group \<open>(\d+\.?\d*)\<close> that every amount pattern contains.\<close>

definition amount :: regex where
  [js_eval]: "amount = Group (seqs [Plus Digit, Opt (Lit 46), Star Digit])"

subsection \<open>Balance lookup\<close>

text \<open>
  The error patterns of \<open>parseBalanceResult\<close>, in the order of the source:
  \<open>/U+65E0 U+6548|invalid|incorrect/i\<close>, \<open>/U+4E0D U+5B58 U+5728|not found/i\<close>,
  \<open>/U+5DF2.*U+5151 U+6362|already.*redeemed/i\<close>, \<open>/U+8FC7 U+671F|expired/i\<close>,
  \<open>/U+9519 U+8BEF|error/i\<close>.
\<close>

definition redeemedPattern :: regexp where
  [js_eval]: "redeemedPattern =
     RegExp (alts [seqs [Lit 24050, Star AnyChar, str [20817, 25442]],
                   seqs [str (ascii ''already''), Star AnyChar, str (ascii ''redeemed'')]]) True"

definition expiredPattern :: regexp where
  [js_eval]: "expiredPattern = RegExp (alts [str [36807, 26399], str (ascii ''expired'')]) True"

definition invalidPattern :: regexp where
  [js_eval]: "invalidPattern =
     RegExp (alts [str [26080, 25928], str (ascii ''invalid''), str (ascii ''incorrect'')]) True"

definition errorPatterns :: "regexp list" where
  [js_eval]: "errorPatterns =
     [ invalidPattern,
       RegExp (alts [str [19981, 23384, 22312], str (ascii ''not found'')]) True,
       redeemedPattern,
       expiredPattern,
       RegExp (alts [str [38169, 35823], str (ascii ''error'')]) True ]"

text \<open>
  The amount patterns: \<open>/U+00A5\s*(\d+\.?\d*)/\<close>, \<open>/(\d+\.?\d*)\s*U+5143/\<close>,
  \<open>/U+4F59 U+989D.*?(\d+\.?\d*)/\<close>, \<open>/balance.*?(\d+\.?\d*)/i\<close> for the yuan formats, and
  \<open>/\$\s*(\d+\.?\d*)/\<close>, \<open>/USD\s*(\d+\.?\d*)/i\<close>, \<open>/(\d+\.?\d*)\s*USD/i\<close> for the dollar formats;
  \<open>/[\$U+00A5]\s*(\d+\.?\d*)/\<close> is tried on the markup.
\<close>

definition cnBalancePatterns :: "regexp list" where
  [js_eval]: "cnBalancePatterns =
     [ RegExp (seqs [Lit 165, Star Space, amount]) False,
       RegExp (seqs [amount, Star Space, Lit 20803]) False,
       RegExp (seqs [str [20313, 39069], StarLazy AnyChar, amount]) False,
       RegExp (seqs [str (ascii ''balance''), StarLazy AnyChar, amount]) True ]"

definition usBalancePatterns :: "regexp list" where
  [js_eval]: "usBalancePatterns =
     [ RegExp (seqs [Lit 36, Star Space, amount]) False,
       RegExp (seqs [str (ascii ''USD''), Star Space, amount]) True,
       RegExp (seqs [amount, Star Space, str (ascii ''USD'')]) True ]"

definition htmlPattern :: regexp where
  [js_eval]: "htmlPattern = RegExp (seqs [OneOf [36, 165], Star Space, amount]) False"

text \<open>
  The loop \<open>for (const pattern of patterns) { const match = pageText.match(pattern);
  if (match) { ...; return result; } }\<close>: the match of the first pattern that matches.
\<close>

fun firstMatch :: "jsstring \<Rightarrow> regexp list \<Rightarrow> (jsstring \<times> jsstring option) option" where
  "firstMatch pageText [] = None"
| "firstMatch pageText (pattern # patterns) =
     (case match pageText pattern of
        Some m \<Rightarrow> Some m
      | None \<Rightarrow> firstMatch pageText patterns)"

text \<open>
  The messages: U+6B64 U+793C U+54C1 U+5361 U+5DF2 U+88AB U+5151 U+6362 (this card has been
  redeemed), U+5361 U+53F7 U+65E0 U+6548 U+6216 U+6709 U+8BEF (card number invalid or wrong),
  U+4F59 U+989D followed by a colon and a space (balance), U+65E0 U+6CD5 U+89E3 U+6790 U+67E5
  U+8BE2 U+7ED3 U+679C (cannot parse the result).
\<close>

definition msg_card_redeemed :: jsstring where
  [js_eval]: "msg_card_redeemed = [27492, 31036, 21697, 21345, 24050, 34987, 20817, 25442]"

definition msg_card_invalid :: jsstring where
  [js_eval]: "msg_card_invalid = [21345, 21495, 26080, 25928, 25110, 26377, 35823]"

definition msg_balance :: jsstring where
  [js_eval]: "msg_balance = [20313, 39069, 58, 32]"

definition msg_cannot_parse :: jsstring where
  [js_eval]: "msg_cannot_parse = [26080, 27861, 35299, 26512, 26597, 35810, 32467, 26524]"

text \<open>
  \<open>parseBalanceResult(pageText, pageHTML, code)\<close>.  It is a method, so the checker's
  configuration is in its reach (\<open>cfg\<close>); \<open>now\<close> is what \<open>new Date().toISOString()\<close> returns.
\<close>

definition parseBalanceResult ::
  "config \<Rightarrow> jsstring \<Rightarrow> jsstring \<Rightarrow> jsstring \<Rightarrow> jsstring \<Rightarrow> balance_outcome" where
  "parseBalanceResult cfg pageText pageHTML c now =
     (let result = \<lparr> code = maskCode c, status = status_unknown, message = None,
                      timestamp = now, balance = None, currency = None \<rparr> in
      case List.find (\<lambda>pattern. test pattern pageText) errorPatterns of
        Some pattern \<Rightarrow>
          if test redeemedPattern pageText
          then result\<lparr> status := status_redeemed, message := Some msg_card_redeemed \<rparr>
          else result\<lparr> status := status_invalid, message := Some msg_card_invalid \<rparr>
      | None \<Rightarrow>
         (case firstMatch pageText cnBalancePatterns of
            Some m \<Rightarrow>
              result\<lparr> status := status_valid, balance := snd m, currency := Some [165],
                      message := Some (msg_balance @ [165] @ interpolate (snd m)) \<rparr>
          | None \<Rightarrow>
             (case firstMatch pageText usBalancePatterns of
                Some m \<Rightarrow>
                  result\<lparr> status := status_valid, balance := snd m, currency := Some [36],
                          message := Some (msg_balance @ [36] @ interpolate (snd m)) \<rparr>
              | None \<Rightarrow>
                 (case match pageHTML htmlPattern of
                    Some htmlMatch \<Rightarrow>
                      result\<lparr> status := status_valid, balance := snd htmlMatch,
                              currency := Some (take 1 (fst htmlMatch)),
                              message := Some (msg_balance @ fst htmlMatch) \<rparr>
                  | None \<Rightarrow>
                      result\<lparr> status := status_unknown,
                              message := Some msg_cannot_parse \<rparr>))))"

subsection \<open>Redemption\<close>

text \<open>
  The success patterns of \<open>parseRedemptionResult\<close>:
  \<open>/success|redeemed|added.*account|credited/i\<close> and \<open>/U+5DF2.*U+5151 U+6362|U+6210 U+529F/i\<close>;
  its error patterns, each with its message:
  \<open>/already.*used|already.*redeemed|U+5DF2.*U+4F7F U+7528|U+5DF2.*U+5151 U+6362/i\<close> (the code has
  been used), \<open>/invalid|incorrect|U+65E0 U+6548/i\<close> (invalid code), \<open>/expired|U+8FC7 U+671F/i\<close>
  (the code has expired), \<open>/region|country|U+5730 U+533A/i\<close> (not valid in this region),
  \<open>/error|U+9519 U+8BEF/i\<close> (an error occurred while redeeming).
\<close>

definition successPatterns :: "regexp list" where
  [js_eval]: "successPatterns =
     [ RegExp (alts [str (ascii ''success''), str (ascii ''redeemed''),
                     seqs [str (ascii ''added''), Star AnyChar, str (ascii ''account'')],
                     str (ascii ''credited'')]) True,
       RegExp (alts [seqs [Lit 24050, Star AnyChar, str [20817, 25442]], str [25104, 21151]]) True ]"

definition msg_redeem_success :: jsstring where
  [js_eval]: "msg_redeem_success =
     [25104, 21151, 20817, 25442, 21040] @ ascii ''Apple'' @ [36134, 25143]"

definition msg_code_used :: jsstring where
  [js_eval]: "msg_code_used = [20817, 25442, 30721, 24050, 34987, 20351, 29992]"

definition msg_code_invalid :: jsstring where
  [js_eval]: "msg_code_invalid = [26080, 25928, 30340, 20817, 25442, 30721]"

definition msg_code_expired :: jsstring where
  [js_eval]: "msg_code_expired = [20817, 25442, 30721, 24050, 36807, 26399]"

definition msg_code_region :: jsstring where
  [js_eval]: "msg_code_region = [20817, 25442, 30721, 22312, 27492, 22320, 21306, 26080, 25928]"

definition msg_redeem_error :: jsstring where
  [js_eval]: "msg_redeem_error = [20817, 25442, 26102, 21457, 29983, 38169, 35823]"

definition msg_redeem_unknown :: jsstring where
  [js_eval]: "msg_redeem_unknown = [26080, 27861, 30830, 23450, 20817, 25442, 29366, 24577]"

definition usedPattern :: regexp where
  [js_eval]: "usedPattern =
     RegExp (alts [seqs [str (ascii ''already''), Star AnyChar, str (ascii ''used'')],
                   seqs [str (ascii ''already''), Star AnyChar, str (ascii ''redeemed'')],
                   seqs [Lit 24050, Star AnyChar, str [20351, 29992]],
                   seqs [Lit 24050, Star AnyChar, str [20817, 25442]]]) True"

definition invalidCodePattern :: regexp where
  [js_eval]: "invalidCodePattern =
     RegExp (alts [str (ascii ''invalid''), str (ascii ''incorrect''), str [26080, 25928]]) True"

definition redeemErrorPatterns :: "(regexp \<times> jsstring) list" where
  [js_eval]: "redeemErrorPatterns =
     [ (usedPattern, msg_code_used),
       (invalidCodePattern, msg_code_invalid),
       (RegExp (alts [str (ascii ''expired''), str [36807, 26399]]) True, msg_code_expired),
       (RegExp (alts [str (ascii ''region''), str (ascii ''country''), str [22320, 21306]]) True,
        msg_code_region),
       (RegExp (alts [str (ascii ''error''), str [38169, 35823]]) True, msg_redeem_error) ]"

definition parseRedemptionResult ::
  "config \<Rightarrow> jsstring \<Rightarrow> jsstring \<Rightarrow> jsstring \<Rightarrow> jsstring \<Rightarrow> outcome" where
  "parseRedemptionResult cfg pageText pageHTML c now =
     (let result = \<lparr> code = maskCode c, status = status_unknown, message = None,
                      timestamp = now \<rparr> in
      case List.find (\<lambda>pattern. test pattern pageText) successPatterns of
        Some pattern \<Rightarrow>
          result\<lparr> status := status_redeemed, message := Some msg_redeem_success \<rparr>
      | None \<Rightarrow>
         (case List.find (\<lambda>(pattern, msg). test pattern pageText) redeemErrorPatterns of
            Some (pattern, msg) \<Rightarrow> result\<lparr> status := status_failed, message := Some msg \<rparr>
          | None \<Rightarrow> result\<lparr> status := status_unknown, message := Some msg_redeem_unknown \<rparr>))"


section \<open>Driving the browser\<close>

text \<open>
  A failure is either an \<open>Error\<close> that the checker itself creates and throws, or the rejection
  of a call to the browser driver; both carry a message.
\<close>

datatype error = Error jsstring | Rejected jsstring

fun error_message :: "error \<Rightarrow> jsstring" where
  "error_message (Error m) = m"
| "error_message (Rejected m) = m"

text \<open>
  \<open>page.$(selector)\<close> resolves to an element handle or to \<open>null\<close>, or it is rejected (as it
  is for a selector that is no valid CSS, like \<open>button:contains(...)\<close>).
\<close>

type_synonym handle = nat

datatype probe = Found handle | Null | Throws jsstring

text \<open>
  Every call to the driver is an \<open>await\<close> that may be rejected.  One invocation of
  \<open>checkBalance\<close> or of \<open>redeemCard\<close> opens one page and runs each call site at most once
  (once per selector in a loop over selectors), so what the browser does during one
  invocation is given by the outcome of each call site: \<open>None\<close> where a call that returns
  nothing succeeds, the message of the rejection where it is rejected.  The element a loop looks for names the
  call sites around it, the moment names the pauses and the readings of the page text.
\<close>

datatype site =
    GiftCardInput | CheckButton
  | LoginIndicator | EmailInput | PasswordInput
  | CodeInput | RedeemButton

datatype stage = Loaded | Clicked site | Entered site | Settled | TwoFactorPause

record page_run =
  newPage :: "jsstring option"
  setUserAgent :: "jsstring option"
  goto :: "jsstring \<Rightarrow> nat \<Rightarrow> jsstring option"
  waitForTimeout :: "stage \<Rightarrow> jsstring option"
  query :: "site \<Rightarrow> jsstring \<Rightarrow> probe"
  queryAll :: "jsstring \<Rightarrow> jsstring + handle list"
  click :: "site \<Rightarrow> handle \<Rightarrow> jsstring option"
  typeText :: "site \<Rightarrow> handle \<Rightarrow> jsstring \<Rightarrow> jsstring option"
  pressEnter :: "site \<Rightarrow> jsstring option"
  innerText :: "stage \<Rightarrow> jsstring + jsstring"
  content :: "jsstring + jsstring"
  screenshot :: "jsstring option"
  close :: "jsstring option"
  closeAfterError :: "jsstring option"
  toISOString :: jsstring

text \<open>
  Sequencing inside a \<open>try\<close> block: the first failure ends the block.  \<open>andThen\<close> awaits a
  driver call that returns nothing, \<open>await\<close> one that returns a value, \<open>bindE\<close> runs a part
  of the checker that may itself throw.
\<close>

fun andThen :: "jsstring option \<Rightarrow> error + 'a \<Rightarrow> error + 'a" where
  "andThen None k = k"
| "andThen (Some m) k = Inl (Rejected m)"

fun await :: "jsstring + 'a \<Rightarrow> ('a \<Rightarrow> error + 'b) \<Rightarrow> error + 'b" where
  "await (Inl m) k = Inl (Rejected m)"
| "await (Inr x) k = k x"

fun bindE :: "error + 'a \<Rightarrow> ('a \<Rightarrow> error + 'b) \<Rightarrow> error + 'b" where
  "bindE (Inl e) k = Inl e"
| "bindE (Inr x) k = k x"

subsection \<open>Finding elements\<close>

text \<open>
  The loop \<open>for (const selector of selectors) { try { field = await page.$(selector);
  if (field) break; } catch (e) { continue; } }\<close>: the handle of the first selector that
  resolves to an element; a selector that resolves to \<open>null\<close> or is rejected is passed over.
\<close>

fun probeLoop :: "(jsstring \<Rightarrow> probe) \<Rightarrow> jsstring list \<Rightarrow> handle option" where
  "probeLoop q [] = None"
| "probeLoop q (selector # selectors) =
     (case q selector of
        Found h \<Rightarrow> Some h
      | Null \<Rightarrow> probeLoop q selectors
      | Throws e \<Rightarrow> probeLoop q selectors)"

text \<open>The same loop without the inner \<open>try\<close>, as in \<open>loginToApple\<close>: a rejection leaves it.\<close>

fun probeLoopStrict :: "(jsstring \<Rightarrow> probe) \<Rightarrow> jsstring list \<Rightarrow> error + handle option" where
  "probeLoopStrict q [] = Inr None"
| "probeLoopStrict q (selector # selectors) =
     (case q selector of
        Found h \<Rightarrow> Inr (Some h)
      | Null \<Rightarrow> probeLoopStrict q selectors
      | Throws m \<Rightarrow> Inl (Rejected m))"

text \<open>
  The loop that clicks the first button found; the click is inside the inner \<open>try\<close>, so a
  rejected click moves on to the next selector.  The result is the flag \<open>submitted\<close>.
\<close>

fun clickLoop :: "(jsstring \<Rightarrow> probe) \<Rightarrow> (handle \<Rightarrow> jsstring option) \<Rightarrow> jsstring list \<Rightarrow> bool" where
  "clickLoop q clk [] = False"
| "clickLoop q clk (selector # selectors) =
     (case q selector of
        Found button \<Rightarrow>
          (case clk button of None \<Rightarrow> True | Some e \<Rightarrow> clickLoop q clk selectors)
      | Null \<Rightarrow> clickLoop q clk selectors
      | Throws e \<Rightarrow> clickLoop q clk selectors)"

subsection \<open>Looking up one balance\<close>

definition possibleSelectors :: "jsstring list" where
  [js_eval]: \<open>possibleSelectors =
     [ ascii ''input[name="giftCardNumber"]'',
       ascii ''input[id="giftCardNumber"]'',
       ascii ''input[type="text"]'',
       ascii ''input[placeholder*="code"]'',
       ascii ''input[placeholder*="'' @ [21345] @ ascii ''"]'',
       ascii ''input[aria-label*="card"]'' ]\<close>

definition submitSelectors :: "jsstring list" where
  [js_eval]: \<open>submitSelectors =
     [ ascii ''button[type="submit"]'',
       ascii ''button:contains("'' @ [26597, 35810] @ ascii ''")'',
       ascii ''button:contains("Check")'',
       ascii ''button:contains("'' @ [20313, 39069] @ ascii ''")'',
       ascii ''.button-submit'',
       ascii ''#submit-button'' ]\<close>

text \<open>The message U+65E0 U+6CD5 U+627E U+5230 U+793C U+54C1 U+5361 U+8F93 U+5165 U+6846
  (cannot find the gift card input field).\<close>

definition msg_no_input :: jsstring where
  [js_eval]: "msg_no_input =
     [26080, 27861, 25214, 21040, 31036, 21697, 21345, 36755, 20837, 26694]"

definition balanceUrl :: "config \<Rightarrow> jsstring" where
  "balanceUrl cfg =
     ascii ''https://secure.store.apple.com/'' @ region cfg @ ascii ''/shop/gift-cards/balance''"

text \<open>
  Locating the input field: the candidates in order, then the first element of
  \<open>page.$$('input[type="text"]')\<close> (which is awaited outside any inner \<open>try\<close>), then the
  \<open>throw new Error(...)\<close>.
\<close>

definition locateInput :: "page_run \<Rightarrow> error + handle" where
  \<open>locateInput run =
     (case probeLoop (query run GiftCardInput) possibleSelectors of
        Some inputField \<Rightarrow> Inr inputField
      | None \<Rightarrow>
          await (queryAll run (ascii ''input[type="text"]'')) (\<lambda>inputs.
            case inputs of
              inputField # _ \<Rightarrow> Inr inputField
            | [] \<Rightarrow> Inl (Error msg_no_input)))\<close>

text \<open>The body of the \<open>try\<close> block of \<open>checkBalance\<close>, up to its \<open>return result\<close>.\<close>

definition checkBalance_try :: "config \<Rightarrow> page_run \<Rightarrow> jsstring \<Rightarrow> error + balance_outcome" where
  "checkBalance_try cfg run c =
     andThen (setUserAgent run) (
     andThen (goto run (balanceUrl cfg) (timeout cfg)) (
     andThen (waitForTimeout run Loaded) (
     bindE (locateInput run) (\<lambda>inputField.
     andThen (click run GiftCardInput inputField) (
     andThen (waitForTimeout run (Clicked GiftCardInput)) (
     andThen (typeText run GiftCardInput inputField c) (
     andThen (if clickLoop (query run CheckButton) (click run CheckButton) submitSelectors
              then None else pressEnter run GiftCardInput) (
     andThen (waitForTimeout run Settled) (
     await (innerText run Settled) (\<lambda>pageText.
     await (content run) (\<lambda>pageHTML.
     let result = parseBalanceResult cfg pageText pageHTML c (toISOString run) in
     andThen (if screenshotOnError cfg \<or> \<not> headless cfg then screenshot run else None) (
     andThen (close run) (
     Inr result)))))))))))))"

text \<open>
  \<open>checkBalance(code, attempt = 1)\<close>.  \<open>runs k\<close> is what the browser does during attempt
  \<open>k\<close>.  The page is opened before the \<open>try\<close>.  In the \<open>catch\<close> block the screenshot is
  taken inside a \<open>try\<close> of its own and its failure is swallowed, so it does not show in the
  result; \<open>page.close()\<close> is awaited unguarded; then the method calls itself with
  \<open>attempt + 1\<close> while \<open>attempt < retryAttempts\<close>, and builds the error record otherwise.
  Beside the outcome the model returns the number of attempts made, that is, how many times
  the method has run (this call and the calls it made to itself).
\<close>

function checkBalance ::
  "config \<Rightarrow> (nat \<Rightarrow> page_run) \<Rightarrow> jsstring \<Rightarrow> nat \<Rightarrow> nat \<times> (error + balance_outcome)" where
  "checkBalance cfg runs c attempt =
     (case newPage (runs attempt) of
        Some m \<Rightarrow> (1, Inl (Rejected m))
      | None \<Rightarrow>
         (case checkBalance_try cfg (runs attempt) c of
            Inr result \<Rightarrow> (1, Inr result)
          | Inl err \<Rightarrow>
             (case closeAfterError (runs attempt) of
                Some m \<Rightarrow> (1, Inl (Rejected m))
              | None \<Rightarrow>
                  if attempt < retryAttempts cfg
                  then (case checkBalance cfg runs c (attempt + 1) of
                          (n, r) \<Rightarrow> (Suc n, r))
                  else (1, Inr \<lparr> code = maskCode c, status = status_error,
                                  message = Some (error_message err),
                                  timestamp = toISOString (runs attempt),
                                  balance = None, currency = None \<rparr>))))"
  by pat_completeness auto
termination
  by (relation "measure (\<lambda>(cfg, runs, c, attempt). retryAttempts cfg - attempt)") auto

declare checkBalance.simps [simp del]

subsection \<open>Redeeming one code\<close>

definition loginIndicators :: "jsstring list" where
  [js_eval]: \<open>loginIndicators =
     [ ascii ''input[name="accountName"]'',
       ascii ''input[id="account_name_text_field"]'',
       ascii ''input[type="email"]'',
       ascii ''#signIn'',
       ascii ''.sign-in'' ]\<close>

definition emailSelectors :: "jsstring list" where
  [js_eval]: \<open>emailSelectors =
     [ ascii ''input[name="accountName"]'',
       ascii ''input[id="account_name_text_field"]'',
       ascii ''input[type="email"]'' ]\<close>

definition passwordSelectors :: "jsstring list" where
  [js_eval]: \<open>passwordSelectors =
     [ ascii ''input[name="password"]'',
       ascii ''input[id="password_text_field"]'',
       ascii ''input[type="password"]'' ]\<close>

definition codeInputSelectors :: "jsstring list" where
  [js_eval]: \<open>codeInputSelectors =
     [ ascii ''input[name="code"]'',
       ascii ''input[id="redemptionCode"]'',
       ascii ''input[placeholder*="code"]'',
       ascii ''input[type="text"]'' ]\<close>

definition redeemButtonSelectors :: "jsstring list" where
  [js_eval]: \<open>redeemButtonSelectors =
     [ ascii ''button:contains("'' @ [20817, 25442] @ ascii ''")'',
       ascii ''button:contains("Redeem")'',
       ascii ''button[type="submit"]'',
       ascii ''input[type="submit"]'',
       ascii ''.button-redeem'',
       ascii ''#redeem-button'' ]\<close>

text \<open>
  The messages of the three \<open>throw new Error(...)\<close>: cannot find the Apple ID e-mail field,
  the password field, the redemption code field.  The pattern that detects a two-factor
  prompt is \<open>/two.?factor|verification|code|U+53CC U+91CD|U+9A8C U+8BC1/i\<close>.
\<close>

definition msg_no_email :: jsstring where
  [js_eval]: "msg_no_email =
     [26080, 27861, 25214, 21040] @ ascii ''Apple ID'' @ [37038, 31665, 36755, 20837, 26694]"

definition msg_no_password :: jsstring where
  [js_eval]: "msg_no_password = [26080, 27861, 25214, 21040, 23494, 30721, 36755, 20837, 26694]"

definition msg_no_code_input :: jsstring where
  [js_eval]: "msg_no_code_input =
     [26080, 27861, 25214, 21040, 20817, 25442, 30721, 36755, 20837, 26694]"

definition twoFactorPattern :: regexp where
  [js_eval]: "twoFactorPattern =
     RegExp (alts [seqs [str (ascii ''two''), Opt AnyChar, str (ascii ''factor'')],
                   str (ascii ''verification''), str (ascii ''code''),
                   str [21452, 37325], str [39564, 35777]]) True"

definition redeemUrl :: jsstring where
  "redeemUrl = ascii ''https://buy.itunes.apple.com/WebObjects/MZFinance.woa/wa/freeProductCodeWizard''"

definition checkIfLoginRequired :: "page_run \<Rightarrow> bool" where
  "checkIfLoginRequired run = (probeLoop (query run LoginIndicator) loginIndicators \<noteq> None)"

text \<open>\<open>loginToApple\<close>: its \<open>catch\<close> logs the error and throws it again.\<close>

definition loginToApple :: "page_run \<Rightarrow> jsstring \<Rightarrow> jsstring \<Rightarrow> error + unit" where
  "loginToApple run appleId password =
     bindE (probeLoopStrict (query run EmailInput) emailSelectors) (\<lambda>found.
     case found of
       None \<Rightarrow> Inl (Error msg_no_email)
     | Some emailInput \<Rightarrow>
     andThen (click run EmailInput emailInput) (
     andThen (waitForTimeout run (Clicked EmailInput)) (
     andThen (typeText run EmailInput emailInput appleId) (
     andThen (pressEnter run EmailInput) (
     andThen (waitForTimeout run (Entered EmailInput)) (
     bindE (probeLoopStrict (query run PasswordInput) passwordSelectors) (\<lambda>found'.
     case found' of
       None \<Rightarrow> Inl (Error msg_no_password)
     | Some passwordInput \<Rightarrow>
     andThen (click run PasswordInput passwordInput) (
     andThen (waitForTimeout run (Clicked PasswordInput)) (
     andThen (typeText run PasswordInput passwordInput password) (
     andThen (pressEnter run PasswordInput) (
     andThen (waitForTimeout run (Entered PasswordInput)) (
     await (innerText run (Entered PasswordInput)) (\<lambda>pageText.
     andThen (if test twoFactorPattern pageText then waitForTimeout run TwoFactorPause else None) (
     Inr ()))))))))))))))"

definition redeemCard_try ::
  "config \<Rightarrow> page_run \<Rightarrow> jsstring \<Rightarrow> jsstring \<Rightarrow> jsstring \<Rightarrow> error + outcome" where
  "redeemCard_try cfg run c appleId password =
     andThen (goto run redeemUrl (timeout cfg)) (
     andThen (waitForTimeout run Loaded) (
     bindE (if checkIfLoginRequired run then loginToApple run appleId password else Inr ()) (\<lambda>_.
     case probeLoop (query run CodeInput) codeInputSelectors of
       None \<Rightarrow> Inl (Error msg_no_code_input)
     | Some codeInput \<Rightarrow>
     andThen (click run CodeInput codeInput) (
     andThen (waitForTimeout run (Clicked CodeInput)) (
     andThen (typeText run CodeInput codeInput c) (
     andThen (if clickLoop (query run RedeemButton) (click run RedeemButton) redeemButtonSelectors
              then None else pressEnter run CodeInput) (
     andThen (waitForTimeout run Settled) (
     await (innerText run Settled) (\<lambda>pageText.
     await (content run) (\<lambda>pageHTML.
     let result = parseRedemptionResult cfg pageText pageHTML c (toISOString run) in
     andThen (if screenshotOnError cfg \<or> \<not> headless cfg then screenshot run else None) (
     andThen (close run) (
     Inr result))))))))))))"

function redeemCard ::
  "config \<Rightarrow> (nat \<Rightarrow> page_run) \<Rightarrow> jsstring \<Rightarrow> jsstring \<Rightarrow> jsstring \<Rightarrow> nat
    \<Rightarrow> nat \<times> (error + outcome)" where
  "redeemCard cfg runs c appleId password attempt =
     (case newPage (runs attempt) of
        Some m \<Rightarrow> (1, Inl (Rejected m))
      | None \<Rightarrow>
         (case redeemCard_try cfg (runs attempt) c appleId password of
            Inr result \<Rightarrow> (1, Inr result)
          | Inl err \<Rightarrow>
             (case closeAfterError (runs attempt) of
                Some m \<Rightarrow> (1, Inl (Rejected m))
              | None \<Rightarrow>
                  if attempt < retryAttempts cfg
                  then (case redeemCard cfg runs c appleId password (attempt + 1) of
                          (n, r) \<Rightarrow> (Suc n, r))
                  else (1, Inr \<lparr> code = maskCode c, status = status_redeem_failed,
                                  message = Some (error_message err),
                                  timestamp = toISOString (runs attempt) \<rparr>))))"
  by pat_completeness auto
termination
  by (relation "measure (\<lambda>(cfg, runs, c, appleId, password, attempt). retryAttempts cfg - attempt)")
     auto

declare redeemCard.simps [simp del]


section \<open>Batches\<close>

text \<open>
  The checker object: its configuration and the list \<open>this.results\<close> (the browser handle is
  represented by what the browser does).  \<open>world i k\<close> is what the browser does during
  attempt \<open>k\<close> for the code at index \<open>i\<close> of the batch.
\<close>

record checker =
  config :: config
  results :: "balance_outcome list"

record fs_env =
  existsSync :: bool
  mkdirSync :: "jsstring option"

text \<open>
  The \<open>for (let i = 0; i < codes.length; i++)\<close> loop of \<open>processBatch\<close>: each result is pushed
  onto \<open>this.results\<close>; a rejection of \<open>checkBalance\<close> leaves the loop and the method.  The
  delay between two cards and the printed summary change nothing.
\<close>

function processBatch_loop ::
  "checker \<Rightarrow> (nat \<Rightarrow> nat \<Rightarrow> page_run) \<Rightarrow> jsstring list \<Rightarrow> nat \<Rightarrow> checker \<times> error option" where
  "processBatch_loop this world codes i =
     (if i < length codes then
        (case snd (checkBalance (config this) (world i) (codes ! i) 1) of
           Inl e \<Rightarrow> (this, Some e)
         | Inr result \<Rightarrow>
             processBatch_loop (this\<lparr> results := results this @ [result] \<rparr>) world codes (i + 1))
      else (this, None))"
  by pat_completeness auto
termination
  by (relation "measure (\<lambda>(this, world, codes, i). length codes - i)") auto

declare processBatch_loop.simps [simp del]

definition processBatch ::
  "checker \<Rightarrow> fs_env \<Rightarrow> (nat \<Rightarrow> nat \<Rightarrow> page_run) \<Rightarrow> jsstring list
    \<Rightarrow> checker \<times> (error + balance_outcome list)" where
  "processBatch this fs world codes =
     (case (if \<not> existsSync fs then mkdirSync fs else None) of
        Some m \<Rightarrow> (this, Inl (Rejected m))
      | None \<Rightarrow>
         (case processBatch_loop (this\<lparr> results := [] \<rparr>) world codes 0 of
            (this', Some e) \<Rightarrow> (this', Inl e)
          | (this', None) \<Rightarrow> (this', Inr (results this'))))"

text \<open>\<open>redeemBatch\<close> collects into a local list and leaves \<open>this.results\<close> alone.\<close>

function redeemBatch_loop ::
  "checker \<Rightarrow> (nat \<Rightarrow> nat \<Rightarrow> page_run) \<Rightarrow> jsstring list \<Rightarrow> jsstring \<Rightarrow> jsstring \<Rightarrow> nat
    \<Rightarrow> outcome list \<Rightarrow> error + outcome list" where
  "redeemBatch_loop this world codes appleId password i redemptionResults =
     (if i < length codes then
        (case snd (redeemCard (config this) (world i) (codes ! i) appleId password 1) of
           Inl e \<Rightarrow> Inl e
         | Inr result \<Rightarrow>
             redeemBatch_loop this world codes appleId password (i + 1)
               (redemptionResults @ [result]))
      else Inr redemptionResults)"
  by pat_completeness auto
termination
  by (relation "measure (\<lambda>(this, world, codes, appleId, password, i, rs). length codes - i)") auto

declare redeemBatch_loop.simps [simp del]

definition redeemBatch ::
  "checker \<Rightarrow> (nat \<Rightarrow> nat \<Rightarrow> page_run) \<Rightarrow> jsstring list \<Rightarrow> jsstring \<Rightarrow> jsstring
    \<Rightarrow> error + outcome list" where
  "redeemBatch this world codes appleId password =
     redeemBatch_loop this world codes appleId password 0 []"

section \<open>Saving the results\<close>

text \<open>
  The object that \<open>saveResults\<close> serialises with \<open>JSON.stringify\<close>.  The keys of its metadata
  block are, in order: U+751F U+6210 U+65F6 U+95F4 (time of generation), U+603B U+5361 U+7247
  U+6570 (total number of cards), U+6709 U+6548 U+5361 U+7247 (valid cards), U+65E0 U+6548
  U+5361 U+7247 (invalid cards), U+5DF2 U+5151 U+6362 U+5361 U+7247 (redeemed cards),
  U+9519 U+8BEF (errors).  There is no other key.
\<close>

record metadata =
  generated_at :: jsstring
  total_cards :: nat
  valid_cards :: nat
  invalid_cards :: nat
  redeemed_cards :: nat
  error_cards :: nat

record json_output =
  output_metadata :: metadata
  output_results :: "balance_outcome list"

datatype file_content = Json json_output | Text jsstring

definition count_status :: "jsstring \<Rightarrow> balance_outcome list \<Rightarrow> nat" where
  "count_status s rs = length (filter (\<lambda>r. status r = s) rs)"

text \<open>
  \<open>saveCSV\<close>: the header U+5151 U+6362 U+7801, U+72B6 U+6001, U+4F59 U+989D, U+8D27 U+5E01,
  U+6D88 U+606F, U+65F6 U+95F4 (code, status, balance, currency, message, time) and one line
  per record; \<open>x || ''\<close> is the empty string for \<open>null\<close>.
\<close>

definition csv_header :: jsstring where
  [js_eval]: "csv_header =
     [20817, 25442, 30721, 44, 29366, 24577, 44, 20313, 39069, 44, 36135, 24065, 44,
      28040, 24687, 44, 26102, 38388, 10]"

fun or_empty :: "jsstring option \<Rightarrow> jsstring" where
  "or_empty None = []"
| "or_empty (Some s) = s"

definition quoted :: "jsstring \<Rightarrow> jsstring" where
  "quoted s = [34] @ s @ [34]"

definition csv_fields :: "balance_outcome \<Rightarrow> jsstring list" where
  "csv_fields r =
     [code r, status r, or_empty (balance r), or_empty (currency r), or_empty (message r),
      timestamp r]"

fun join_comma :: "jsstring list \<Rightarrow> jsstring" where
  "join_comma [] = []"
| "join_comma [x] = x"
| "join_comma (x # xs) = x @ [44] @ join_comma xs"

definition csv_row :: "balance_outcome \<Rightarrow> jsstring" where
  "csv_row r = join_comma (map quoted (csv_fields r)) @ [10]"

definition saveCSV :: "checker \<Rightarrow> jsstring" where
  "saveCSV this = foldl (\<lambda>csv r. csv @ csv_row r) csv_header (results this)"

text \<open>\<open>filename.replace('.json', '.csv')\<close> replaces the first occurrence.\<close>

fun replace :: "jsstring \<Rightarrow> jsstring \<Rightarrow> jsstring \<Rightarrow> jsstring" where
  "replace [] pat rep = (if pat = [] then rep else [])"
| "replace (x # xs) pat rep =
     (if take (length pat) (x # xs) = pat then rep @ drop (length pat) (x # xs)
      else x # replace xs pat rep)"

text \<open>
  \<open>saveResults(filename)\<close>: the two files written, in order, each with its name and content
  (a rejected write is not modelled).
\<close>

definition saveResults_output :: "checker \<Rightarrow> jsstring \<Rightarrow> json_output" where
  "saveResults_output this now =
     \<lparr> output_metadata =
         \<lparr> generated_at = now,
           total_cards = length (results this),
           valid_cards = count_status status_valid (results this),
           invalid_cards = count_status status_invalid (results this),
           redeemed_cards = count_status status_redeemed (results this),
           error_cards = count_status status_error (results this) \<rparr>,
       output_results = results this \<rparr>"

definition saveResults :: "checker \<Rightarrow> jsstring \<Rightarrow> jsstring \<Rightarrow> (jsstring \<times> file_content) list" where
  "saveResults this now filename =
     [ (filename, Json (saveResults_output this now)),
       (replace filename (ascii ''.json'') (ascii ''.csv''), Text (saveCSV this)) ]"

text \<open>
  \<open>printSummary\<close> computes the same counts for the console, and one more: the number of
  records whose status is the unknown one.
\<close>

record stats =
  stats_total :: nat
  stats_valid :: nat
  stats_invalid :: nat
  stats_redeemed :: nat
  stats_error :: nat
  stats_unknown :: nat

definition printSummary :: "checker \<Rightarrow> stats" where
  "printSummary this =
     \<lparr> stats_total = length (results this),
       stats_valid = count_status status_valid (results this),
       stats_invalid = count_status status_invalid (results this),
       stats_redeemed = count_status status_redeemed (results this),
       stats_error = count_status status_error (results this),
       stats_unknown = count_status status_unknown (results this) \<rparr>"

section \<open>Example inputs\<close>

text \<open>
  A code from the usage example, a timestamp, and the configurations the constructor builds
  from no options and from the region \<open>us\<close>.
\<close>

definition example_code :: jsstring where
  [js_eval]: "example_code = ascii ''X87L-WQ5G-7FW3-VGCW''"

definition example_now :: jsstring where
  [js_eval]: "example_now = ascii ''2024-01-01T00:00:00.000Z''"

definition no_options :: options where
  "no_options =
     \<lparr> opt_headless = None, opt_delayBetweenCards = None, opt_retryAttempts = None,
       opt_timeout = None, opt_region = None, opt_screenshotOnError = None \<rparr>"

definition cfg_cn :: config where
  "cfg_cn = constructor no_options"

definition cfg_us :: config where
  "cfg_us = constructor (no_options\<lparr> opt_region := Some (ascii ''us'') \<rparr>)"

text \<open>
  Page texts: U+8BE5 U+5361 U+5DF2 U+5151 U+6362 (this card has been redeemed), and
  U+00A5 88.00 followed by a space and U+53EF U+7528 U+4F59 U+989D (available balance).
\<close>

definition text_redeemed :: jsstring where
  [js_eval]: "text_redeemed = [35813, 21345, 24050, 20817, 25442]"

definition text_yuan_balance :: jsstring where
  [js_eval]: "text_yuan_balance = [165] @ ascii ''88.00 '' @ [21487, 29992, 20313, 39069]"

text \<open>
  What the browser does in the examples.  On \<open>page_ok\<close> every call succeeds: the page has one
  text input (handle 1) and one submit button (handle 2), and shows the given text.  On
  \<open>page_stalled\<close> the navigation times out and everything else succeeds.  With
  \<open>browser_gone\<close> the browser has gone away: no page can be opened.
\<close>

definition page_ok :: "jsstring \<Rightarrow> page_run" where
  \<open>page_ok pageText =
     \<lparr> newPage = None,
       setUserAgent = None,
       goto = (\<lambda>url t. None),
       waitForTimeout = (\<lambda>stage. None),
       query = (\<lambda>site selector.
          if selector = ascii ''input[type="text"]'' then Found 1
          else if selector = ascii ''button[type="submit"]'' then Found 2
          else if selector = ascii ''.button-submit'' then Null
          else Throws (ascii ''not a valid selector'')),
       queryAll = (\<lambda>selector. Inr [1]),
       click = (\<lambda>site h. None),
       typeText = (\<lambda>site h t. None),
       pressEnter = (\<lambda>site. None),
       innerText = (\<lambda>stage. Inr pageText),
       content = Inr [],
       screenshot = None,
       close = None,
       closeAfterError = None,
       toISOString = example_now \<rparr>\<close>

definition page_stalled :: page_run where
  "page_stalled =
     (page_ok [])\<lparr> goto := (\<lambda>url t. Some (ascii ''Navigation timeout of 30000 ms exceeded'')) \<rparr>"

definition browser_gone :: page_run where
  "browser_gone = (page_ok [])\<lparr> newPage := Some (ascii ''Target closed'') \<rparr>"

text \<open>Pages for the search of the input field: no candidate resolves on them.\<close>

definition page_without_candidates :: "(jsstring + handle list) \<Rightarrow> page_run" where
  "page_without_candidates inputs =
     (page_ok [])\<lparr> query := (\<lambda>site selector. if site = GiftCardInput then Null else Found 2),
                    queryAll := (\<lambda>selector. inputs) \<rparr>"

text \<open>
  A page on which the navigation times out and, the browser having gone away meanwhile,
  the page cannot be closed in the error handler either.
\<close>

definition page_stalled_unclosable :: page_run where
  "page_stalled_unclosable = page_stalled\<lparr> closeAfterError := Some (ascii ''Target closed'') \<rparr>"

text \<open>
  A new checker with the default configuration, a file system in which the screenshot
  directory exists, and a batch of two codes from the usage example.
\<close>

definition checker_cn :: checker where
  "checker_cn = \<lparr> config = cfg_cn, results = [] \<rparr>"

definition fs_ready :: fs_env where
  "fs_ready = \<lparr> existsSync = True, mkdirSync = None \<rparr>"

definition example_codes :: "jsstring list" where
  "example_codes = [example_code, ascii ''XNZ3-PMLP-YTNQ-GT7N'']"

text \<open>
  A checker after a batch of one code whose result page was empty: its only record is the one
  that \<open>parseBalanceResult\<close> builds for an empty text and empty markup.
\<close>

definition checker_one_unknown :: checker where
  "checker_one_unknown =
     \<lparr> config = cfg_cn,
       results = [parseBalanceResult cfg_cn [] [] example_code example_now] \<rparr>"

section \<open>Properties\<close>

subsection \<open>Masking\<close>

lemma maskCode_long:
  "8 \<le> length c \<Longrightarrow>
     maskCode c = take 4 c @ ascii ''-****-****-'' @ drop (length c - 4) c"
  by (auto simp: maskCode_def)

lemma maskCode_short: "length c < 8 \<Longrightarrow> maskCode c = ascii ''****-****''"
  by (simp add: maskCode_def)

lemma length_maskCode_long: "8 \<le> length c \<Longrightarrow> length (maskCode c) = 19"
  by (simp add: maskCode_long ascii_def)

lemma maskCode_idem_long:
  assumes "8 \<le> length c"
  shows "maskCode (maskCode c) = maskCode c"
proof -
  let ?m = "maskCode c"
  have len: "length ?m = 19"
    using assms by (rule length_maskCode_long)
  have m: "?m = take 4 c @ ascii ''-****-****-'' @ drop (length c - 4) c"
    using assms by (rule maskCode_long)
  have l4: "length (take 4 c) = 4"
    using assms by simp
  have hd4: "take 4 ?m = take 4 c"
    using assms by (subst m) (simp add: l4)
  have "drop 15 ?m = drop (length c - 4) c"
    using assms by (subst m) (simp add: l4 ascii_def)
  then have tl4: "drop (length ?m - 4) ?m = drop (length c - 4) c"
    by (simp add: len)
  have "maskCode ?m = take 4 ?m @ ascii ''-****-****-'' @ drop (length ?m - 4) ?m"
    by (rule maskCode_long) (simp add: len)
  then show ?thesis
    by (simp only: hd4 tl4 m [symmetric])
qed

text \<open>
  C2, as the spec has it, fails on the idempotence half: the placeholder returned for a short
  code is nine characters long, so masking it again takes the long branch and gives another
  string.
\<close>

theorem maskCode_not_idempotent:
  "maskCode (maskCode (ascii ''abc'')) \<noteq> maskCode (ascii ''abc'')"
  by (simp add: maskCode_def ascii_def)
text \<open>
  C2 (amended): for a code of at least 8 characters the mask is its first four characters,
  the fixed middle \<open>-****-****-\<close> and its last four characters, it is the same for two codes
  that agree on those eight characters (lossy), and masking the mask changes nothing; for a
  shorter code the mask is the fixed placeholder \<open>****-****\<close>, and masking the placeholder
  gives \<open>****-****-****-****\<close>.
\<close>

theorem maskCode_spec:
  "(8 \<le> length c \<longrightarrow>
      maskCode c = take 4 c @ ascii ''-****-****-'' @ drop (length c - 4) c
      \<and> maskCode (maskCode c) = maskCode c
      \<and> (8 \<le> length c' \<and> take 4 c' = take 4 c
            \<and> drop (length c' - 4) c' = drop (length c - 4) c
          \<longrightarrow> maskCode c' = maskCode c))
   \<and> (length c < 8 \<longrightarrow>
      maskCode c = ascii ''****-****''
      \<and> maskCode (maskCode c) = ascii ''****-****-****-****'')"
proof (intro conjI impI)
  assume "8 \<le> length c"
  then show "maskCode c = take 4 c @ ascii ''-****-****-'' @ drop (length c - 4) c"
    by (rule maskCode_long)
next
  assume "8 \<le> length c"
  then show "maskCode (maskCode c) = maskCode c"
    by (rule maskCode_idem_long)
next
  assume "8 \<le> length c"
    and "8 \<le> length c' \<and> take 4 c' = take 4 c
      \<and> drop (length c' - 4) c' = drop (length c - 4) c"
  then show "maskCode c' = maskCode c"
    by (simp add: maskCode_long)
next
  assume "length c < 8"
  then show "maskCode c = ascii ''****-****''"
    by (rule maskCode_short)
next
  assume "length c < 8"
  then have "maskCode c = ascii ''****-****''"
    by (rule maskCode_short)
  then show "maskCode (maskCode c) = ascii ''****-****-****-****''"
    by (simp add: maskCode_def ascii_def)
qed

theorem maskCode_spec_witness:
  "maskCode (ascii ''X87L-WQ5G-7FW3-VGCW'') = ascii ''X87L-****-****-VGCW''
   \<and> maskCode (maskCode (ascii ''X87L-WQ5G-7FW3-VGCW'')) = ascii ''X87L-****-****-VGCW''
   \<and> maskCode (ascii ''X87L-0000-0000-VGCW'') = maskCode (ascii ''X87L-WQ5G-7FW3-VGCW'')
   \<and> maskCode (ascii ''X87L'') = ascii ''****-****''
   \<and> maskCode (maskCode (ascii ''X87L'')) = ascii ''****-****-****-****''"
proof -
  have long: "8 \<le> length (ascii ''X87L-WQ5G-7FW3-VGCW'')"
    and long': "8 \<le> length (ascii ''X87L-0000-0000-VGCW'')
      \<and> take 4 (ascii ''X87L-0000-0000-VGCW'') = take 4 (ascii ''X87L-WQ5G-7FW3-VGCW'')
      \<and> drop (length (ascii ''X87L-0000-0000-VGCW'') - 4) (ascii ''X87L-0000-0000-VGCW'')
        = drop (length (ascii ''X87L-WQ5G-7FW3-VGCW'') - 4) (ascii ''X87L-WQ5G-7FW3-VGCW'')"
    and short: "length (ascii ''X87L'') < 8"
    by (simp_all add: ascii_def)
  have m: "take 4 (ascii ''X87L-WQ5G-7FW3-VGCW'') @ ascii ''-****-****-''
      @ drop (length (ascii ''X87L-WQ5G-7FW3-VGCW'') - 4) (ascii ''X87L-WQ5G-7FW3-VGCW'')
    = ascii ''X87L-****-****-VGCW''"
    by (simp add: ascii_def)
  note spec = maskCode_spec [of "ascii ''X87L-WQ5G-7FW3-VGCW''" "ascii ''X87L-0000-0000-VGCW''"]
  from spec long
  have "maskCode (ascii ''X87L-WQ5G-7FW3-VGCW'')
      = take 4 (ascii ''X87L-WQ5G-7FW3-VGCW'') @ ascii ''-****-****-''
        @ drop (length (ascii ''X87L-WQ5G-7FW3-VGCW'') - 4) (ascii ''X87L-WQ5G-7FW3-VGCW'')"
    by blast
  then have a: "maskCode (ascii ''X87L-WQ5G-7FW3-VGCW'') = ascii ''X87L-****-****-VGCW''"
    by (simp only: m)
  from spec long
  have "maskCode (maskCode (ascii ''X87L-WQ5G-7FW3-VGCW''))
      = maskCode (ascii ''X87L-WQ5G-7FW3-VGCW'')"
    by blast
  then have b: "maskCode (maskCode (ascii ''X87L-WQ5G-7FW3-VGCW''))
      = ascii ''X87L-****-****-VGCW''"
    by (simp only: a)
  from spec long long'
  have c: "maskCode (ascii ''X87L-0000-0000-VGCW'') = maskCode (ascii ''X87L-WQ5G-7FW3-VGCW'')"
    by blast
  from maskCode_spec [of "ascii ''X87L''"] short
  have d: "maskCode (ascii ''X87L'') = ascii ''****-****''"
    and e: "maskCode (maskCode (ascii ''X87L'')) = ascii ''****-****-****-****''"
    by blast+
  from a b c d e show ?thesis
    by (simp only: simp_thms)
qed

subsection \<open>The balance classifier\<close>

lemmas classify_eval = js_eval test_def

lemma status_distinct:
  "status_redeemed \<noteq> status_valid" "status_invalid \<noteq> status_valid"
  "status_unknown \<noteq> status_valid" "status_unknown \<noteq> status_invalid"
  "status_redeemed \<noteq> status_invalid" "status_failed \<noteq> status_redeemed"
  by (simp_all add: js_eval)

lemma find_error_Some:
  "list_ex (\<lambda>p. test p pageText) errorPatterns
    \<Longrightarrow> \<exists>p. List.find (\<lambda>pattern. test pattern pageText) errorPatterns = Some p"
  by (cases "List.find (\<lambda>pattern. test pattern pageText) errorPatterns")
     (auto simp: find_None_iff list_ex_iff)

lemma find_error_None:
  "\<not> list_ex (\<lambda>p. test p pageText) errorPatterns
    \<Longrightarrow> List.find (\<lambda>pattern. test pattern pageText) errorPatterns = None"
  by (simp add: find_None_iff list_ex_iff)

lemma parseBalanceResult_error:
  assumes "list_ex (\<lambda>p. test p pageText) errorPatterns"
  shows "parseBalanceResult cfg pageText pageHTML c now =
     \<lparr> code = maskCode c,
       status = (if test redeemedPattern pageText then status_redeemed else status_invalid),
       message = Some (if test redeemedPattern pageText then msg_card_redeemed
                       else msg_card_invalid),
       timestamp = now, balance = None, currency = None \<rparr>"
proof -
  from find_error_Some [OF assms] obtain p
    where "List.find (\<lambda>pattern. test pattern pageText) errorPatterns = Some p" ..
  then show ?thesis
    by (simp add: parseBalanceResult_def)
qed

lemma redeemedPattern_in_errorPatterns: "redeemedPattern \<in> set errorPatterns"
  and expiredPattern_in_errorPatterns: "expiredPattern \<in> set errorPatterns"
  by (simp_all add: errorPatterns_def)

lemma parseBalanceResult_redeemed:
  assumes "test redeemedPattern pageText"
  shows "status (parseBalanceResult cfg pageText pageHTML c now) = status_redeemed"
    and "message (parseBalanceResult cfg pageText pageHTML c now) = Some msg_card_redeemed"
proof -
  have "list_ex (\<lambda>p. test p pageText) errorPatterns"
    using assms redeemedPattern_in_errorPatterns by (auto simp: list_ex_iff)
  then show "status (parseBalanceResult cfg pageText pageHTML c now) = status_redeemed"
    and "message (parseBalanceResult cfg pageText pageHTML c now) = Some msg_card_redeemed"
    using assms by (simp_all add: parseBalanceResult_error)
qed

lemma parseBalanceResult_no_error:
  assumes "\<not> list_ex (\<lambda>p. test p pageText) errorPatterns"
  shows "parseBalanceResult cfg pageText pageHTML c now =
     (let result = \<lparr> code = maskCode c, status = status_unknown, message = None,
                      timestamp = now, balance = None, currency = None \<rparr> in
      case firstMatch pageText cnBalancePatterns of
        Some m \<Rightarrow>
          result\<lparr> status := status_valid, balance := snd m, currency := Some [165],
                  message := Some (msg_balance @ [165] @ interpolate (snd m)) \<rparr>
      | None \<Rightarrow>
         (case firstMatch pageText usBalancePatterns of
            Some m \<Rightarrow>
              result\<lparr> status := status_valid, balance := snd m, currency := Some [36],
                      message := Some (msg_balance @ [36] @ interpolate (snd m)) \<rparr>
          | None \<Rightarrow>
             (case match pageHTML htmlPattern of
                Some htmlMatch \<Rightarrow>
                  result\<lparr> status := status_valid, balance := snd htmlMatch,
                          currency := Some (take 1 (fst htmlMatch)),
                          message := Some (msg_balance @ fst htmlMatch) \<rparr>
              | None \<Rightarrow>
                  result\<lparr> status := status_unknown, message := Some msg_cannot_parse \<rparr>)))"
  by (simp add: parseBalanceResult_def find_error_None [OF assms])

lemma parseBalanceResult_status_cases:
  "status (parseBalanceResult cfg pageText pageHTML c now)
     \<in> {status_redeemed, status_invalid, status_valid, status_unknown}"
proof (cases "list_ex (\<lambda>p. test p pageText) errorPatterns")
  case True
  then show ?thesis by (simp add: parseBalanceResult_error)
next
  case False
  then show ?thesis
    by (simp add: parseBalanceResult_no_error Let_def split: option.split)
qed

text \<open>Evaluation of the patterns on the example texts.\<close>

lemma test_text_redeemed: "test redeemedPattern text_redeemed"
  by (simp add: classify_eval)

lemma no_error_text_yuan_balance: "\<not> list_ex (\<lambda>p. test p text_yuan_balance) errorPatterns"
  by (simp add: classify_eval)

lemma cn_text_yuan_balance:
  "firstMatch text_yuan_balance cnBalancePatterns = Some ([165] @ ascii ''88.00'', Some (ascii ''88.00''))"
  by (simp add: classify_eval)

lemma no_error_not_be_found:
  "\<not> list_ex (\<lambda>p. test p (ascii ''Your code could not be found'')) errorPatterns"
  by (simp add: classify_eval)

lemma no_amount_not_be_found:
  "firstMatch (ascii ''Your code could not be found'') cnBalancePatterns = None"
  "firstMatch (ascii ''Your code could not be found'') usBalancePatterns = None"
  by (simp_all add: classify_eval)

lemma no_match_empty:
  "\<not> list_ex (\<lambda>p. test p []) errorPatterns"
  "firstMatch [] cnBalancePatterns = None"
  "firstMatch [] usBalancePatterns = None"
  "match [] htmlPattern = None"
  by (simp_all add: classify_eval)

lemma no_match_welcome:
  "\<not> list_ex (\<lambda>p. test p (ascii ''Welcome to the store'')) errorPatterns"
  "firstMatch (ascii ''Welcome to the store'') cnBalancePatterns = None"
  "firstMatch (ascii ''Welcome to the store'') usBalancePatterns = None"
  by (simp_all add: classify_eval)

lemma parseBalanceResult_not_be_found:
  "parseBalanceResult cfg (ascii ''Your code could not be found'') [] c now =
     \<lparr> code = maskCode c, status = status_unknown, message = Some msg_cannot_parse,
       timestamp = now, balance = None, currency = None \<rparr>"
  by (simp add: parseBalanceResult_no_error [OF no_error_not_be_found] no_amount_not_be_found
      no_match_empty)

text \<open>
  C5, as the spec has it, fails on its third example: in \<open>Your code could not be found\<close> the
  words \<open>not\<close> and \<open>found\<close> are not adjacent, so the pattern \<open>not found\<close> does not match, no
  other error pattern does, and the text is classified as unknown.
\<close>

theorem parseBalanceResult_not_be_found_unknown:
  "region cfg_us = ascii ''us''
   \<and> status (parseBalanceResult cfg_us (ascii ''Your code could not be found'') []
        example_code example_now) = status_unknown
   \<and> status (parseBalanceResult cfg_us (ascii ''Your code could not be found'') []
        example_code example_now) \<noteq> status_invalid"
proof -
  have "region cfg_us = ascii ''us''"
    by (simp add: cfg_us_def constructor_def no_options_def ascii_def)
  then show ?thesis
    by (simp add: parseBalanceResult_not_be_found status_distinct)
qed

text \<open>
  C5 (amended): \<open>parseBalanceResult\<close> classifies the text U+8BE5 U+5361 U+5DF2 U+5151 U+6362 as
  already redeemed; the text U+00A5 88.00 U+53EF U+7528 U+4F59 U+989D as valid with amount
  \<open>88.00\<close> and currency U+00A5; the text \<open>Your code could not be found\<close> (with empty markup,
  whatever the region) as unknown with no amount; and the empty text and an unrecognised
  text (with empty markup) as unknown with no amount.
\<close>

theorem parseBalanceResult_examples:
  "status (parseBalanceResult cfg text_redeemed pageHTML c now) = status_redeemed
   \<and> status (parseBalanceResult cfg text_yuan_balance pageHTML c now) = status_valid
   \<and> balance (parseBalanceResult cfg text_yuan_balance pageHTML c now) = Some (ascii ''88.00'')
   \<and> currency (parseBalanceResult cfg text_yuan_balance pageHTML c now) = Some [165]
   \<and> status (parseBalanceResult cfg (ascii ''Your code could not be found'') [] c now)
       = status_unknown
   \<and> balance (parseBalanceResult cfg (ascii ''Your code could not be found'') [] c now) = None
   \<and> status (parseBalanceResult cfg [] [] c now) = status_unknown
   \<and> balance (parseBalanceResult cfg [] [] c now) = None
   \<and> status (parseBalanceResult cfg (ascii ''Welcome to the store'') [] c now) = status_unknown
   \<and> balance (parseBalanceResult cfg (ascii ''Welcome to the store'') [] c now) = None"
proof -
  have 1: "status (parseBalanceResult cfg text_redeemed pageHTML c now) = status_redeemed"
    using test_text_redeemed by (rule parseBalanceResult_redeemed)
  have 2: "parseBalanceResult cfg text_yuan_balance pageHTML c now =
      \<lparr> code = maskCode c, status = status_valid,
        message = Some (msg_balance @ [165] @ ascii ''88.00''),
        timestamp = now, balance = Some (ascii ''88.00''), currency = Some [165] \<rparr>"
    by (simp add: parseBalanceResult_no_error [OF no_error_text_yuan_balance]
        cn_text_yuan_balance)
  have 3: "parseBalanceResult cfg [] [] c now =
      \<lparr> code = maskCode c, status = status_unknown, message = Some msg_cannot_parse,
        timestamp = now, balance = None, currency = None \<rparr>"
    by (simp add: parseBalanceResult_no_error [OF no_match_empty(1)] no_match_empty)
  have 4: "parseBalanceResult cfg (ascii ''Welcome to the store'') [] c now =
      \<lparr> code = maskCode c, status = status_unknown, message = Some msg_cannot_parse,
        timestamp = now, balance = None, currency = None \<rparr>"
    by (simp add: parseBalanceResult_no_error [OF no_match_welcome(1)] no_match_welcome
        no_match_empty)
  show ?thesis
    by (simp add: 1 2 3 4 parseBalanceResult_not_be_found)
qed

text \<open>
  C6: a page text that matches at least one error pattern is never classified as valid and
  gets neither an amount nor a currency, whatever amounts it contains; so a record is valid
  or carries an amount or a currency only if no error pattern matched.
\<close>

theorem parseBalanceResult_error_before_amount:
  "(list_ex (\<lambda>p. test p pageText) errorPatterns \<longrightarrow>
      status (parseBalanceResult cfg pageText pageHTML c now) \<noteq> status_valid
      \<and> balance (parseBalanceResult cfg pageText pageHTML c now) = None
      \<and> currency (parseBalanceResult cfg pageText pageHTML c now) = None)
   \<and> (status (parseBalanceResult cfg pageText pageHTML c now) = status_valid
       \<or> balance (parseBalanceResult cfg pageText pageHTML c now) \<noteq> None
       \<or> currency (parseBalanceResult cfg pageText pageHTML c now) \<noteq> None
      \<longrightarrow> \<not> list_ex (\<lambda>p. test p pageText) errorPatterns)"
proof -
  let ?r = "parseBalanceResult cfg pageText pageHTML c now"
  have err: "status ?r \<noteq> status_valid \<and> balance ?r = None \<and> currency ?r = None"
    if "list_ex (\<lambda>p. test p pageText) errorPatterns"
    using that by (simp add: parseBalanceResult_error status_distinct)
  show ?thesis
  proof (intro conjI impI)
    assume "list_ex (\<lambda>p. test p pageText) errorPatterns"
    then show "status ?r \<noteq> status_valid" "balance ?r = None" "currency ?r = None"
      using err by simp_all
  next
    assume "status ?r = status_valid \<or> balance ?r \<noteq> None \<or> currency ?r \<noteq> None"
    then show "\<not> list_ex (\<lambda>p. test p pageText) errorPatterns"
      using err by auto
  qed
qed

lemma error_text_with_amount:
  "list_ex (\<lambda>p. test p ([165] @ ascii ''88.00 invalid code'')) errorPatterns"
  "firstMatch ([165] @ ascii ''88.00 invalid code'') cnBalancePatterns
     = Some ([165] @ ascii ''88.00'', Some (ascii ''88.00''))"
  by (simp_all add: classify_eval)

theorem parseBalanceResult_error_before_amount_witness:
  "list_ex (\<lambda>p. test p ([165] @ ascii ''88.00 invalid code'')) errorPatterns
   \<and> firstMatch ([165] @ ascii ''88.00 invalid code'') cnBalancePatterns
       = Some ([165] @ ascii ''88.00'', Some (ascii ''88.00''))
   \<and> status (parseBalanceResult cfg_cn ([165] @ ascii ''88.00 invalid code'') [] example_code
        example_now) \<noteq> status_valid
   \<and> balance (parseBalanceResult cfg_cn ([165] @ ascii ''88.00 invalid code'') [] example_code
        example_now) = None
   \<and> currency (parseBalanceResult cfg_cn ([165] @ ascii ''88.00 invalid code'') [] example_code
        example_now) = None
   \<and> status (parseBalanceResult cfg_cn text_yuan_balance [] example_code example_now)
       = status_valid
   \<and> \<not> list_ex (\<lambda>p. test p text_yuan_balance) errorPatterns"
proof -
  have valid: "status (parseBalanceResult cfg_cn text_yuan_balance [] example_code example_now)
      = status_valid"
    by (simp add: parseBalanceResult_no_error [OF no_error_text_yuan_balance]
        cn_text_yuan_balance)
  from parseBalanceResult_error_before_amount
    [of "[165] @ ascii ''88.00 invalid code''" cfg_cn "[]" example_code example_now]
    parseBalanceResult_error_before_amount
    [of text_yuan_balance cfg_cn "[]" example_code example_now]
    error_text_with_amount valid
  show ?thesis by blast
qed

text \<open>
  C10: the status that \<open>parseBalanceResult\<close> assigns is one of already redeemed, invalid,
  valid and unknown; when an error pattern matches and the already-redeemed pattern does
  not, the status is the generic invalid one, in particular for every text that matches the
  expired pattern and not the already-redeemed one.
\<close>

theorem parseBalanceResult_statuses:
  "status (parseBalanceResult cfg pageText pageHTML c now)
     \<in> {status_redeemed, status_invalid, status_valid, status_unknown}
   \<and> (list_ex (\<lambda>p. test p pageText) errorPatterns \<and> \<not> test redeemedPattern pageText
        \<longrightarrow> status (parseBalanceResult cfg pageText pageHTML c now) = status_invalid)
   \<and> (test expiredPattern pageText \<and> \<not> test redeemedPattern pageText
        \<longrightarrow> status (parseBalanceResult cfg pageText pageHTML c now) = status_invalid)"
proof (intro conjI impI)
  show "status (parseBalanceResult cfg pageText pageHTML c now)
     \<in> {status_redeemed, status_invalid, status_valid, status_unknown}"
    by (rule parseBalanceResult_status_cases)
next
  assume "list_ex (\<lambda>p. test p pageText) errorPatterns \<and> \<not> test redeemedPattern pageText"
  then show "status (parseBalanceResult cfg pageText pageHTML c now) = status_invalid"
    by (simp add: parseBalanceResult_error)
next
  assume a: "test expiredPattern pageText \<and> \<not> test redeemedPattern pageText"
  then have "list_ex (\<lambda>p. test p pageText) errorPatterns"
    using expiredPattern_in_errorPatterns by (auto simp: list_ex_iff)
  with a show "status (parseBalanceResult cfg pageText pageHTML c now) = status_invalid"
    by (simp add: parseBalanceResult_error)
qed

lemma expired_text:
  "test expiredPattern (ascii ''This gift card has expired'')"
  "\<not> test redeemedPattern (ascii ''This gift card has expired'')"
  by (simp_all add: classify_eval)

theorem parseBalanceResult_statuses_witness:
  "test expiredPattern (ascii ''This gift card has expired'')
   \<and> \<not> test redeemedPattern (ascii ''This gift card has expired'')
   \<and> list_ex (\<lambda>p. test p (ascii ''This gift card has expired'')) errorPatterns
   \<and> status (parseBalanceResult cfg_cn (ascii ''This gift card has expired'') [] example_code
        example_now) = status_invalid"
proof -
  have "list_ex (\<lambda>p. test p (ascii ''This gift card has expired'')) errorPatterns"
    using expired_text(1) expiredPattern_in_errorPatterns by (auto simp: list_ex_iff)
  with parseBalanceResult_statuses
    [of cfg_cn "ascii ''This gift card has expired''" "[]" example_code example_now]
    expired_text
  show ?thesis by blast
qed

subsection \<open>Order of the patterns\<close>












subsection \<open>The region\<close>

lemma dollar_balance_text:
  "\<not> list_ex (\<lambda>p. test p (ascii ''Balance: $25.00'')) errorPatterns"
  "firstMatch (ascii ''Balance: $25.00'') cnBalancePatterns
     = Some (ascii ''Balance: $25.00'', Some (ascii ''25.00''))"
  "firstMatch (ascii ''Balance: $25.00'') usBalancePatterns
     = Some (ascii ''$25.00'', Some (ascii ''25.00''))"
  by (simp_all add: classify_eval)


text \<open>
  C7, as the spec has it, fails: \<open>parseBalanceResult\<close> never reads the region.  With the region
  \<open>us\<close> and the page text \<open>Balance: $25.00\<close>, which the first dollar pattern matches, the
  result comes from the fourth yuan pattern and carries the yuan sign.
\<close>

theorem region_us_yuan_patterns_first:
  "region cfg_us = ascii ''us''
   \<and> \<not> list_ex (\<lambda>p. test p (ascii ''Balance: $25.00'')) errorPatterns
   \<and> firstMatch (ascii ''Balance: $25.00'') usBalancePatterns
       = Some (ascii ''$25.00'', Some (ascii ''25.00''))
   \<and> currency (parseBalanceResult cfg_us (ascii ''Balance: $25.00'') [] example_code example_now)
       = Some [165]
   \<and> currency (parseBalanceResult cfg_us (ascii ''Balance: $25.00'') [] example_code example_now)
       \<noteq> Some [36]"
proof -
  have "region cfg_us = ascii ''us''"
    by (simp add: cfg_us_def constructor_def no_options_def ascii_def)
  moreover
  have "currency (parseBalanceResult cfg_us (ascii ''Balance: $25.00'') [] example_code
      example_now) = Some [165]"
    by (simp add: parseBalanceResult_no_error [OF dollar_balance_text(1)] dollar_balance_text(2))
  ultimately show ?thesis
    using dollar_balance_text by simp
qed

lemma parseBalanceResult_region:
  "parseBalanceResult (cfg\<lparr> region := r \<rparr>) pageText pageHTML c now
     = parseBalanceResult cfg pageText pageHTML c now"
  by (simp add: parseBalanceResult_def)

text \<open>
  C7 (amended): the region selects the target URL and nothing else.  The URL is
  \<open>https://secure.store.apple.com/\<close>, the region, \<open>/shop/gift-cards/balance\<close>; a lookup whose
  navigation fares the same under two regions gives the same result under both; and
  \<open>parseBalanceResult\<close> gives the same record under every region: when no error pattern
  matches, the yuan patterns are tried first, and the dollar patterns only when no yuan
  pattern matches.
\<close>

theorem region_selects_url_only:
  "balanceUrl cfg
     = ascii ''https://secure.store.apple.com/'' @ region cfg @ ascii ''/shop/gift-cards/balance''
   \<and> parseBalanceResult (cfg\<lparr> region := r \<rparr>) pageText pageHTML c now
       = parseBalanceResult cfg pageText pageHTML c now
   \<and> (goto run (balanceUrl (cfg\<lparr> region := r \<rparr>)) (timeout cfg)
         = goto run (balanceUrl cfg) (timeout cfg)
       \<longrightarrow> checkBalance_try (cfg\<lparr> region := r \<rparr>) run c = checkBalance_try cfg run c)
   \<and> (\<not> list_ex (\<lambda>p. test p pageText) errorPatterns
        \<and> firstMatch pageText cnBalancePatterns = Some m
       \<longrightarrow> status (parseBalanceResult cfg pageText pageHTML c now) = status_valid
         \<and> balance (parseBalanceResult cfg pageText pageHTML c now) = snd m
         \<and> currency (parseBalanceResult cfg pageText pageHTML c now) = Some [165])
   \<and> (\<not> list_ex (\<lambda>p. test p pageText) errorPatterns
        \<and> firstMatch pageText cnBalancePatterns = None
        \<and> firstMatch pageText usBalancePatterns = Some m
       \<longrightarrow> status (parseBalanceResult cfg pageText pageHTML c now) = status_valid
         \<and> balance (parseBalanceResult cfg pageText pageHTML c now) = snd m
         \<and> currency (parseBalanceResult cfg pageText pageHTML c now) = Some [36])"
proof (intro conjI impI)
  show "balanceUrl cfg
     = ascii ''https://secure.store.apple.com/'' @ region cfg @ ascii ''/shop/gift-cards/balance''"
    by (simp add: balanceUrl_def)
next
  show "parseBalanceResult (cfg\<lparr> region := r \<rparr>) pageText pageHTML c now
     = parseBalanceResult cfg pageText pageHTML c now"
    by (rule parseBalanceResult_region)
next
  assume "goto run (balanceUrl (cfg\<lparr> region := r \<rparr>)) (timeout cfg)
     = goto run (balanceUrl cfg) (timeout cfg)"
  then show "checkBalance_try (cfg\<lparr> region := r \<rparr>) run c = checkBalance_try cfg run c"
    by (simp add: checkBalance_try_def parseBalanceResult_region)
next
  assume a: "\<not> list_ex (\<lambda>p. test p pageText) errorPatterns
    \<and> firstMatch pageText cnBalancePatterns = Some m"
  then have "\<not> list_ex (\<lambda>p. test p pageText) errorPatterns" ..
  note eq = parseBalanceResult_no_error [OF this]
  from a show "status (parseBalanceResult cfg pageText pageHTML c now) = status_valid"
    "balance (parseBalanceResult cfg pageText pageHTML c now) = snd m"
    "currency (parseBalanceResult cfg pageText pageHTML c now) = Some [165]"
    by (simp_all add: eq)
next
  assume a: "\<not> list_ex (\<lambda>p. test p pageText) errorPatterns
    \<and> firstMatch pageText cnBalancePatterns = None
    \<and> firstMatch pageText usBalancePatterns = Some m"
  then have "\<not> list_ex (\<lambda>p. test p pageText) errorPatterns" ..
  note eq = parseBalanceResult_no_error [OF this]
  from a show "status (parseBalanceResult cfg pageText pageHTML c now) = status_valid"
    "balance (parseBalanceResult cfg pageText pageHTML c now) = snd m"
    "currency (parseBalanceResult cfg pageText pageHTML c now) = Some [36]"
    by (simp_all add: eq)
qed

lemma dollar_text:
  "\<not> list_ex (\<lambda>p. test p (ascii ''$25.00'')) errorPatterns"
  "firstMatch (ascii ''$25.00'') cnBalancePatterns = None"
  "firstMatch (ascii ''$25.00'') usBalancePatterns = Some (ascii ''$25.00'', Some (ascii ''25.00''))"
  by (simp_all add: classify_eval)

theorem region_selects_url_only_witness:
  "balanceUrl cfg_us = ascii ''https://secure.store.apple.com/us/shop/gift-cards/balance''
   \<and> goto (page_ok (ascii ''$25.00'')) (balanceUrl (cfg_us\<lparr> region := ascii ''cn'' \<rparr>))
        (timeout cfg_us)
       = goto (page_ok (ascii ''$25.00'')) (balanceUrl cfg_us) (timeout cfg_us)
   \<and> checkBalance_try (cfg_us\<lparr> region := ascii ''cn'' \<rparr>) (page_ok (ascii ''$25.00'')) example_code
       = checkBalance_try cfg_us (page_ok (ascii ''$25.00'')) example_code
   \<and> currency (parseBalanceResult cfg_us (ascii ''Balance: $25.00'') [] example_code example_now)
       = Some [165]
   \<and> balance (parseBalanceResult cfg_us (ascii ''Balance: $25.00'') [] example_code example_now)
       = Some (ascii ''25.00'')
   \<and> currency (parseBalanceResult cfg_us (ascii ''$25.00'') [] example_code example_now)
       = Some [36]
   \<and> balance (parseBalanceResult cfg_us (ascii ''$25.00'') [] example_code example_now)
       = Some (ascii ''25.00'')"
proof -
  have url: "balanceUrl cfg_us = ascii ''https://secure.store.apple.com/us/shop/gift-cards/balance''"
    by (simp add: balanceUrl_def cfg_us_def constructor_def no_options_def ascii_def)
  have nav: "goto (page_ok (ascii ''$25.00'')) (balanceUrl (cfg_us\<lparr> region := ascii ''cn'' \<rparr>))
        (timeout cfg_us)
      = goto (page_ok (ascii ''$25.00'')) (balanceUrl cfg_us) (timeout cfg_us)"
    by (simp add: page_ok_def)
  note a = region_selects_url_only
    [of cfg_us "ascii ''cn''" "ascii ''Balance: $25.00''" "[]" example_code example_now
      "page_ok (ascii ''$25.00'')" "(ascii ''Balance: $25.00'', Some (ascii ''25.00''))"]
  note b = region_selects_url_only
    [of cfg_us "ascii ''cn''" "ascii ''$25.00''" "[]" example_code example_now
      "page_ok (ascii ''$25.00'')" "(ascii ''$25.00'', Some (ascii ''25.00''))"]
  from a nav have 1: "checkBalance_try (cfg_us\<lparr> region := ascii ''cn'' \<rparr>) (page_ok (ascii ''$25.00''))
      example_code = checkBalance_try cfg_us (page_ok (ascii ''$25.00'')) example_code"
    by blast
  from a dollar_balance_text
  have 2: "currency (parseBalanceResult cfg_us (ascii ''Balance: $25.00'') [] example_code
        example_now) = Some [165]
      \<and> balance (parseBalanceResult cfg_us (ascii ''Balance: $25.00'') [] example_code example_now)
        = Some (ascii ''25.00'')"
    by simp
  from b dollar_text
  have 3: "currency (parseBalanceResult cfg_us (ascii ''$25.00'') [] example_code example_now)
        = Some [36]
      \<and> balance (parseBalanceResult cfg_us (ascii ''$25.00'') [] example_code example_now)
        = Some (ascii ''25.00'')"
    by simp
  from url nav 1 2 3 show ?thesis
    by blast
qed

subsection \<open>Locating the input field\<close>

lemma probeLoop_first:
  "\<forall>t\<in>set pre. \<forall>h'. q t \<noteq> Found h' \<Longrightarrow> q s = Found h
    \<Longrightarrow> probeLoop q (pre @ s # post) = Some h"
  by (induction pre) (auto split: probe.split)

lemma probeLoop_none:
  "\<forall>t\<in>set selectors. \<forall>h'. q t \<noteq> Found h' \<Longrightarrow> probeLoop q selectors = None"
  by (induction selectors) (auto split: probe.split)

lemma probeLoop_None_D:
  "probeLoop q selectors = None \<Longrightarrow> \<forall>t\<in>set selectors. \<forall>h'. q t \<noteq> Found h'"
  by (induction selectors) (auto split: probe.splits)

text \<open>
  C9: the candidate selectors are tried in their listed order and the element of the first one
  that resolves is used, a candidate that resolves to nothing or whose probing is rejected
  being passed over; if no candidate resolves, the first element of the query for all text
  inputs is used; if that query yields no element, the step fails with the checker's own
  error and its message, and it fails with that error in this case only.
\<close>

theorem locateInput_spec:
  \<open>(possibleSelectors = pre @ s # post
      \<and> (\<forall>t\<in>set pre. \<forall>h'. query run GiftCardInput t \<noteq> Found h')
      \<and> query run GiftCardInput s = Found h
     \<longrightarrow> locateInput run = Inr h)
   \<and> ((\<forall>t\<in>set possibleSelectors. \<forall>h'. query run GiftCardInput t \<noteq> Found h') \<longrightarrow>
        (queryAll run (ascii ''input[type="text"]'') = Inr (h # hs) \<longrightarrow> locateInput run = Inr h)
        \<and> (queryAll run (ascii ''input[type="text"]'') = Inr []
            \<longrightarrow> locateInput run = Inl (Error msg_no_input))
        \<and> (queryAll run (ascii ''input[type="text"]'') = Inl m
            \<longrightarrow> locateInput run = Inl (Rejected m)))
   \<and> (locateInput run = Inl (Error msg) \<longrightarrow>
        msg = msg_no_input
        \<and> (\<forall>t\<in>set possibleSelectors. \<forall>h'. query run GiftCardInput t \<noteq> Found h')
        \<and> queryAll run (ascii ''input[type="text"]'') = Inr [])\<close>
proof (intro conjI impI)
  assume "possibleSelectors = pre @ s # post
      \<and> (\<forall>t\<in>set pre. \<forall>h'. query run GiftCardInput t \<noteq> Found h')
      \<and> query run GiftCardInput s = Found h"
  then have "probeLoop (query run GiftCardInput) possibleSelectors = Some h"
    using probeLoop_first [of pre "query run GiftCardInput" s h post] by simp
  then show "locateInput run = Inr h"
    by (simp add: locateInput_def)
next
  assume "\<forall>t\<in>set possibleSelectors. \<forall>h'. query run GiftCardInput t \<noteq> Found h'"
  then have none: "probeLoop (query run GiftCardInput) possibleSelectors = None"
    by (rule probeLoop_none)
  show \<open>locateInput run = Inr h\<close> if \<open>queryAll run (ascii ''input[type="text"]'') = Inr (h # hs)\<close>
    using that none by (simp add: locateInput_def)
  show \<open>locateInput run = Inl (Error msg_no_input)\<close>
    if \<open>queryAll run (ascii ''input[type="text"]'') = Inr []\<close>
    using that none by (simp add: locateInput_def)
  show \<open>locateInput run = Inl (Rejected m)\<close>
    if \<open>queryAll run (ascii ''input[type="text"]'') = Inl m\<close>
    using that none by (simp add: locateInput_def)
next
  assume fail: "locateInput run = Inl (Error msg)"
  then have none: "probeLoop (query run GiftCardInput) possibleSelectors = None"
    by (cases "probeLoop (query run GiftCardInput) possibleSelectors")
       (simp_all add: locateInput_def)
  then show "\<forall>t\<in>set possibleSelectors. \<forall>h'. query run GiftCardInput t \<noteq> Found h'"
    by (rule probeLoop_None_D)
  from fail none
  have \<open>await (queryAll run (ascii ''input[type="text"]''))
      (\<lambda>inputs. case inputs of [] \<Rightarrow> Inl (Error msg_no_input) | inputField # _ \<Rightarrow> Inr inputField)
    = Inl (Error msg)\<close>
    by (simp add: locateInput_def)
  then show "msg = msg_no_input" and \<open>queryAll run (ascii ''input[type="text"]'') = Inr []\<close>
    by (cases \<open>queryAll run (ascii ''input[type="text"]'')\<close>; simp split: list.splits)+
qed

lemma page_ok_candidates:
  \<open>possibleSelectors =
     [ascii ''input[name="giftCardNumber"]'', ascii ''input[id="giftCardNumber"]'']
     @ ascii ''input[type="text"]''
     # [ascii ''input[placeholder*="code"]'', ascii ''input[placeholder*="'' @ [21345] @ ascii ''"]'',
        ascii ''input[aria-label*="card"]'']\<close>
  \<open>\<forall>t\<in>set [ascii ''input[name="giftCardNumber"]'', ascii ''input[id="giftCardNumber"]''].
     \<forall>h'. query (page_ok []) GiftCardInput t \<noteq> Found h'\<close>
  \<open>query (page_ok []) GiftCardInput (ascii ''input[type="text"]'') = Found 1\<close>
  by (simp_all add: possibleSelectors_def page_ok_def ascii_def)

lemma page_without_candidates_facts:
  "\<forall>t\<in>set possibleSelectors. \<forall>h'. query (page_without_candidates inputs) GiftCardInput t \<noteq> Found h'"
  "queryAll (page_without_candidates inputs) selector = inputs"
  by (simp_all add: page_without_candidates_def)

theorem locateInput_spec_witness:
  "locateInput (page_ok []) = Inr 1
   \<and> locateInput (page_without_candidates (Inr [5, 6])) = Inr 5
   \<and> locateInput (page_without_candidates (Inr [])) = Inl (Error msg_no_input)
   \<and> locateInput (page_without_candidates (Inl (ascii ''Target closed'')))
       = Inl (Rejected (ascii ''Target closed''))"
proof -
  from locateInput_spec [of
      \<open>[ascii ''input[name="giftCardNumber"]'', ascii ''input[id="giftCardNumber"]'']\<close>
      \<open>ascii ''input[type="text"]''\<close>
      \<open>[ascii ''input[placeholder*="code"]'', ascii ''input[placeholder*="'' @ [21345] @ ascii ''"]'',
        ascii ''input[aria-label*="card"]'']\<close>
      "page_ok []" 1]
    page_ok_candidates
  have 1: "locateInput (page_ok []) = Inr 1"
    by blast
  from locateInput_spec [where run = "page_without_candidates (Inr [5, 6])" and h = 5 and hs = "[6]"]
    page_without_candidates_facts [of "Inr [5, 6]"]
  have 2: "locateInput (page_without_candidates (Inr [5, 6])) = Inr 5"
    by blast
  from locateInput_spec [where run = "page_without_candidates (Inr [])"]
    page_without_candidates_facts [of "Inr []"]
  have 3: "locateInput (page_without_candidates (Inr [])) = Inl (Error msg_no_input)"
    by blast
  from locateInput_spec [where run = "page_without_candidates (Inl (ascii ''Target closed''))"
      and m = "ascii ''Target closed''"]
    page_without_candidates_facts [of "Inl (ascii ''Target closed'')"]
  have 4: "locateInput (page_without_candidates (Inl (ascii ''Target closed'')))
      = Inl (Rejected (ascii ''Target closed''))"
    by blast
  from 1 2 3 4 show ?thesis by blast
qed

subsection \<open>Retrying\<close>

lemma checkBalance_attempts_le:
  "fst (checkBalance cfg runs c attempt) \<le> Suc (retryAttempts cfg - attempt)"
proof (induction cfg runs c attempt rule: checkBalance.induct)
  case (1 cfg runs c attempt)
  show ?case
  proof (cases "newPage (runs attempt) = None \<and> (\<exists>err. checkBalance_try cfg (runs attempt) c = Inl err)
      \<and> closeAfterError (runs attempt) = None \<and> attempt < retryAttempts cfg")
    case True
    then obtain err where tr: "checkBalance_try cfg (runs attempt) c = Inl err"
      by blast
    from True tr "1.IH" [of err]
    have "fst (checkBalance cfg runs c (attempt + 1)) \<le> Suc (retryAttempts cfg - (attempt + 1))"
      by simp
    with True tr show ?thesis
      by (subst checkBalance.simps) (auto simp: case_prod_beta)
  next
    case False
    then show ?thesis
      by (subst checkBalance.simps) (auto simp: case_prod_beta split: option.split sum.split)
  qed
qed

lemma checkBalance_all_fail:
  assumes N: "retryAttempts cfg = N"
    and fail: "\<forall>k. attempt \<le> k \<and> k \<le> N \<longrightarrow>
      newPage (runs k) = None \<and> closeAfterError (runs k) = None
      \<and> checkBalance_try cfg (runs k) c = Inl (errs k)"
    and le: "attempt \<le> N"
  shows "checkBalance cfg runs c attempt =
     (Suc (N - attempt),
      Inr \<lparr> code = maskCode c, status = status_error,
            message = Some (error_message (errs N)), timestamp = toISOString (runs N),
            balance = None, currency = None \<rparr>)"
  using fail le
proof (induction "N - attempt" arbitrary: attempt)
  case 0
  then have "attempt = N" by simp
  with 0 N show ?case
    by (subst checkBalance.simps) simp
next
  case (Suc d)
  then have lt: "attempt < N" by simp
  from Suc.prems lt
  have here: "newPage (runs attempt) = None" "closeAfterError (runs attempt) = None"
    "checkBalance_try cfg (runs attempt) c = Inl (errs attempt)"
    by simp_all
  have "checkBalance cfg runs c (attempt + 1) =
     (Suc (N - (attempt + 1)),
      Inr \<lparr> code = maskCode c, status = status_error,
            message = Some (error_message (errs N)), timestamp = toISOString (runs N),
            balance = None, currency = None \<rparr>)"
    using Suc.hyps(2) Suc.prems lt by (intro Suc.hyps(1)) auto
  with here lt N show ?case
    by (subst checkBalance.simps) (simp add: Suc_diff_Suc)
qed

lemmas browser_eval = page_ok_def page_stalled_def browser_gone_def page_stalled_unclosable_def

lemma cfg_cn_simps:
  "retryAttempts cfg_cn = 3" "screenshotOnError cfg_cn" "headless cfg_cn" "timeout cfg_cn = 30000"
  "region cfg_cn = ascii ''cn''"
  by (simp_all add: cfg_cn_def constructor_def no_options_def)

lemma example_pages:
  "newPage page_stalled = None" "closeAfterError page_stalled = None"
  "toISOString page_stalled = example_now"
  "newPage page_stalled_unclosable = None"
  "closeAfterError page_stalled_unclosable = Some (ascii ''Target closed'')"
  "newPage browser_gone = Some (ascii ''Target closed'')"
  by (simp_all add: browser_eval)

lemma checkBalance_try_stalled:
  "checkBalance_try cfg page_stalled c
     = Inl (Rejected (ascii ''Navigation timeout of 30000 ms exceeded''))"
  "checkBalance_try cfg page_stalled_unclosable c
     = Inl (Rejected (ascii ''Navigation timeout of 30000 ms exceeded''))"
  by (simp_all add: checkBalance_try_def browser_eval)

text \<open>
  C4, as the spec has it, fails: the page is opened before the \<open>try\<close> block, so when the
  browser cannot open a page the first attempt is the only one and its failure reaches the
  caller; and when an attempt fails and the page cannot be closed in the error handler, the
  rejection of \<open>page.close()\<close> reaches the caller, again after one attempt.
\<close>

theorem checkBalance_failure_propagates:
  "retryAttempts cfg_cn = 3
   \<and> checkBalance cfg_cn (\<lambda>k. browser_gone) example_code 1
       = (1, Inl (Rejected (ascii ''Target closed'')))
   \<and> checkBalance cfg_cn (\<lambda>k. page_stalled_unclosable) example_code 1
       = (1, Inl (Rejected (ascii ''Target closed'')))"
proof -
  have "checkBalance cfg_cn (\<lambda>k. browser_gone) example_code 1
      = (1, Inl (Rejected (ascii ''Target closed'')))"
    by (subst checkBalance.simps) (simp add: example_pages)
  moreover
  have "checkBalance cfg_cn (\<lambda>k. page_stalled_unclosable) example_code 1
      = (1, Inl (Rejected (ascii ''Target closed'')))"
    by (subst checkBalance.simps) (simp add: checkBalance_try_stalled example_pages)
  ultimately show ?thesis
    by (simp add: cfg_cn_simps)
qed

text \<open>
  C4 (amended): with \<open>retryAttempts = N\<close>, \<open>N \<ge> 1\<close>, if on each of the attempts 1 to \<open>N\<close> the page
  opens, the \<open>try\<close> block fails and the page closes in the error handler, then exactly \<open>N\<close>
  attempts are made and the caller receives one record, whose status is the error status
  and whose message is the message of the last attempt's error; nothing is thrown.  Whatever
  the browser does, no more than \<open>N\<close> attempts are made.
\<close>

theorem checkBalance_retry_bound:
  "(1 \<le> retryAttempts cfg
      \<and> (\<forall>k. 1 \<le> k \<and> k \<le> retryAttempts cfg \<longrightarrow>
            newPage (runs k) = None \<and> closeAfterError (runs k) = None
            \<and> checkBalance_try cfg (runs k) c = Inl (errs k))
     \<longrightarrow> checkBalance cfg runs c 1 =
          (retryAttempts cfg,
           Inr \<lparr> code = maskCode c, status = status_error,
                 message = Some (error_message (errs (retryAttempts cfg))),
                 timestamp = toISOString (runs (retryAttempts cfg)),
                 balance = None, currency = None \<rparr>))
   \<and> (1 \<le> retryAttempts cfg \<longrightarrow> fst (checkBalance cfg runs c 1) \<le> retryAttempts cfg)"
proof (intro conjI impI)
  assume a: "1 \<le> retryAttempts cfg
      \<and> (\<forall>k. 1 \<le> k \<and> k \<le> retryAttempts cfg \<longrightarrow>
            newPage (runs k) = None \<and> closeAfterError (runs k) = None
            \<and> checkBalance_try cfg (runs k) c = Inl (errs k))"
  then have "checkBalance cfg runs c 1 =
     (Suc (retryAttempts cfg - 1),
      Inr \<lparr> code = maskCode c, status = status_error,
            message = Some (error_message (errs (retryAttempts cfg))),
            timestamp = toISOString (runs (retryAttempts cfg)),
            balance = None, currency = None \<rparr>)"
    by (intro checkBalance_all_fail) simp_all
  with a show "checkBalance cfg runs c 1 =
     (retryAttempts cfg,
      Inr \<lparr> code = maskCode c, status = status_error,
            message = Some (error_message (errs (retryAttempts cfg))),
            timestamp = toISOString (runs (retryAttempts cfg)),
            balance = None, currency = None \<rparr>)"
    by simp
next
  assume "1 \<le> retryAttempts cfg"
  with checkBalance_attempts_le [of cfg runs c 1]
  show "fst (checkBalance cfg runs c 1) \<le> retryAttempts cfg"
    by simp
qed

theorem checkBalance_retry_bound_witness:
  "retryAttempts cfg_cn = 3
   \<and> newPage page_stalled = None \<and> closeAfterError page_stalled = None
   \<and> checkBalance_try cfg_cn page_stalled example_code
       = Inl (Rejected (ascii ''Navigation timeout of 30000 ms exceeded''))
   \<and> checkBalance cfg_cn (\<lambda>k. page_stalled) example_code 1 =
       (3, Inr \<lparr> code = ascii ''X87L-****-****-VGCW'', status = status_error,
                 message = Some (ascii ''Navigation timeout of 30000 ms exceeded''),
                 timestamp = example_now, balance = None, currency = None \<rparr>)"
proof -
  have hyp: "1 \<le> retryAttempts cfg_cn
      \<and> (\<forall>k. 1 \<le> k \<and> k \<le> retryAttempts cfg_cn \<longrightarrow>
         newPage ((\<lambda>k. page_stalled) k) = None \<and> closeAfterError ((\<lambda>k. page_stalled) k) = None
         \<and> checkBalance_try cfg_cn ((\<lambda>k. page_stalled) k) example_code
             = Inl ((\<lambda>k. Rejected (ascii ''Navigation timeout of 30000 ms exceeded'')) k))"
    by (simp add: cfg_cn_simps checkBalance_try_stalled example_pages)
  have mask: "maskCode example_code = ascii ''X87L-****-****-VGCW''"
    by (simp add: maskCode_def example_code_def ascii_def)
  have stamp: "toISOString page_stalled = example_now"
    by (rule example_pages)
  from checkBalance_retry_bound
    [of cfg_cn "\<lambda>k. page_stalled" example_code
      "\<lambda>k. Rejected (ascii ''Navigation timeout of 30000 ms exceeded'')"]
    hyp
  have "checkBalance cfg_cn (\<lambda>k. page_stalled) example_code 1 =
      (retryAttempts cfg_cn,
       Inr \<lparr> code = maskCode example_code, status = status_error,
             message = Some (error_message
               (Rejected (ascii ''Navigation timeout of 30000 ms exceeded''))),
             timestamp = toISOString page_stalled,
             balance = None, currency = None \<rparr>)"
    by blast
  then have "checkBalance cfg_cn (\<lambda>k. page_stalled) example_code 1 =
       (3, Inr \<lparr> code = ascii ''X87L-****-****-VGCW'', status = status_error,
                 message = Some (ascii ''Navigation timeout of 30000 ms exceeded''),
                 timestamp = example_now, balance = None, currency = None \<rparr>)"
    by (simp only: mask stamp cfg_cn_simps error_message.simps)
  then show ?thesis
    by (simp add: cfg_cn_simps checkBalance_try_stalled example_pages)
qed

subsection \<open>Batches\<close>

lemma checkBalance_returns:
  assumes "\<forall>k. newPage (runs k) = None \<and> closeAfterError (runs k) = None"
  shows "\<exists>r. snd (checkBalance cfg runs c attempt) = Inr r"
  using assms
proof (induction cfg runs c attempt rule: checkBalance.induct)
  case (1 cfg runs c attempt)
  show ?case
  proof (cases "checkBalance_try cfg (runs attempt) c")
    case (Inr result)
    with "1.prems" show ?thesis
      by (subst checkBalance.simps) simp
  next
    case (Inl err)
    show ?thesis
    proof (cases "attempt < retryAttempts cfg")
      case True
      with Inl "1.prems" "1.IH" [of err]
      obtain r where "snd (checkBalance cfg runs c (attempt + 1)) = Inr r"
        by auto
      with Inl True "1.prems" show ?thesis
        by (subst checkBalance.simps) (simp add: case_prod_beta)
    next
      case False
      with Inl "1.prems" show ?thesis
        by (subst checkBalance.simps) simp
    qed
  qed
qed

lemma redeemCard_returns:
  assumes "\<forall>k. newPage (runs k) = None \<and> closeAfterError (runs k) = None"
  shows "\<exists>r. snd (redeemCard cfg runs c appleId password attempt) = Inr r"
  using assms
proof (induction cfg runs c appleId password attempt rule: redeemCard.induct)
  case (1 cfg runs c appleId password attempt)
  show ?case
  proof (cases "redeemCard_try cfg (runs attempt) c appleId password")
    case (Inr result)
    with "1.prems" show ?thesis
      by (subst redeemCard.simps) simp
  next
    case (Inl err)
    show ?thesis
    proof (cases "attempt < retryAttempts cfg")
      case True
      with Inl "1.prems" "1.IH" [of err]
      obtain r where "snd (redeemCard cfg runs c appleId password (attempt + 1)) = Inr r"
        by auto
      with Inl True "1.prems" show ?thesis
        by (subst redeemCard.simps) (simp add: case_prod_beta)
    next
      case False
      with Inl "1.prems" show ?thesis
        by (subst redeemCard.simps) simp
    qed
  qed
qed

lemma processBatch_loop_results:
  "processBatch_loop this world codes i = (this', None) \<Longrightarrow>
     config this' = config this
     \<and> (\<exists>rs. results this' = results this @ rs \<and> length rs = length codes - i
          \<and> (\<forall>j<length rs.
                snd (checkBalance (config this) (world (i + j)) (codes ! (i + j)) 1) = Inr (rs ! j)))"
proof (induction this world codes i rule: processBatch_loop.induct)
  case (1 this world codes i)
  show ?case
  proof (cases "i < length codes")
    case False
    with "1.prems" show ?thesis
      by (subst (asm) processBatch_loop.simps) auto
  next
    case True
    from "1.prems" True obtain result
      where res: "snd (checkBalance (config this) (world i) (codes ! i) 1) = Inr result"
        and rec: "processBatch_loop (this\<lparr> results := results this @ [result] \<rparr>) world codes (i + 1)
          = (this', None)"
      by (subst (asm) processBatch_loop.simps) (auto split: sum.splits)
    from "1.IH" [OF True res rec] obtain rs
      where cfg: "config this' = config this"
        and rs: "results this' = (results this @ [result]) @ rs"
          "length rs = length codes - (i + 1)"
          "\<forall>j<length rs.
             snd (checkBalance (config this) (world (i + 1 + j)) (codes ! (i + 1 + j)) 1)
               = Inr (rs ! j)"
      by auto
    have "\<forall>j<length (result # rs).
        snd (checkBalance (config this) (world (i + j)) (codes ! (i + j)) 1)
          = Inr ((result # rs) ! j)"
    proof (intro allI impI)
      fix j assume "j < length (result # rs)"
      then show "snd (checkBalance (config this) (world (i + j)) (codes ! (i + j)) 1)
          = Inr ((result # rs) ! j)"
        using res rs(3) by (cases j) auto
    qed
    moreover have "results this' = results this @ (result # rs)"
      using rs(1) by simp
    moreover have "length (result # rs) = length codes - i"
      using rs(2) True by simp
    ultimately show ?thesis
      using cfg by blast
  qed
qed

lemma processBatch_loop_returns:
  "\<forall>j<length codes. \<exists>r. snd (checkBalance (config this) (world j) (codes ! j) 1) = Inr r
    \<Longrightarrow> \<exists>this'. processBatch_loop this world codes i = (this', None)"
proof (induction this world codes i rule: processBatch_loop.induct)
  case (1 this world codes i)
  show ?case
  proof (cases "i < length codes")
    case False
    then show ?thesis
      by (subst processBatch_loop.simps) simp
  next
    case True
    with "1.prems" obtain result
      where res: "snd (checkBalance (config this) (world i) (codes ! i) 1) = Inr result"
      by blast
    from "1.IH" [OF True res] "1.prems"
    obtain this' where "processBatch_loop (this\<lparr> results := results this @ [result] \<rparr>) world
        codes (i + 1) = (this', None)"
      by auto
    with True res show ?thesis
      by (subst processBatch_loop.simps) simp
  qed
qed

lemma redeemBatch_loop_results:
  "redeemBatch_loop this world codes appleId password i acc = Inr rs' \<Longrightarrow>
     \<exists>rs. rs' = acc @ rs \<and> length rs = length codes - i
       \<and> (\<forall>j<length rs.
             snd (redeemCard (config this) (world (i + j)) (codes ! (i + j)) appleId password 1)
               = Inr (rs ! j))"
proof (induction this world codes appleId password i acc
    rule: redeemBatch_loop.induct)
  case (1 this world codes appleId password i acc)
  show ?case
  proof (cases "i < length codes")
    case False
    with "1.prems" show ?thesis
      by (subst (asm) redeemBatch_loop.simps) auto
  next
    case True
    from "1.prems" True obtain result
      where res: "snd (redeemCard (config this) (world i) (codes ! i) appleId password 1)
          = Inr result"
        and rec: "redeemBatch_loop this world codes appleId password (i + 1) (acc @ [result])
          = Inr rs'"
      by (subst (asm) redeemBatch_loop.simps) (auto split: sum.splits)
    from "1.IH" [OF True res rec] obtain rs
      where rs: "rs' = (acc @ [result]) @ rs"
          "length rs = length codes - (i + 1)"
          "\<forall>j<length rs.
             snd (redeemCard (config this) (world (i + 1 + j)) (codes ! (i + 1 + j)) appleId
               password 1) = Inr (rs ! j)"
      by auto
    have "\<forall>j<length (result # rs).
        snd (redeemCard (config this) (world (i + j)) (codes ! (i + j)) appleId password 1)
          = Inr ((result # rs) ! j)"
    proof (intro allI impI)
      fix j assume "j < length (result # rs)"
      then show "snd (redeemCard (config this) (world (i + j)) (codes ! (i + j)) appleId
          password 1) = Inr ((result # rs) ! j)"
        using res rs(3) by (cases j) auto
    qed
    moreover have "rs' = acc @ (result # rs)"
      using rs(1) by simp
    moreover have "length (result # rs) = length codes - i"
      using rs(2) True by simp
    ultimately show ?thesis
      by blast
  qed
qed

lemma redeemBatch_loop_returns:
  "\<forall>j<length codes.
     \<exists>r. snd (redeemCard (config this) (world j) (codes ! j) appleId password 1) = Inr r
    \<Longrightarrow> \<exists>rs. redeemBatch_loop this world codes appleId password i acc = Inr rs"
proof (induction this world codes appleId password i acc rule: redeemBatch_loop.induct)
  case (1 this world codes appleId password i acc)
  show ?case
  proof (cases "i < length codes")
    case False
    then show ?thesis
      by (subst redeemBatch_loop.simps) simp
  next
    case True
    with "1.prems" obtain result
      where res: "snd (redeemCard (config this) (world i) (codes ! i) appleId password 1)
          = Inr result"
      by blast
    from "1.IH" [OF True res] "1.prems"
    obtain rs where "redeemBatch_loop this world codes appleId password (i + 1) (acc @ [result])
        = Inr rs"
      by auto
    with True res show ?thesis
      by (subst redeemBatch_loop.simps) simp
  qed
qed


text \<open>
  C1, as the spec has it, fails: \<open>checkBalance\<close> and \<open>redeemCard\<close> open the page before their
  \<open>try\<close> block, so a browser that cannot open a page makes them throw, and the batch
  returns no list.
\<close>

theorem batch_aborts_without_browser:
  "snd (checkBalance cfg_cn (\<lambda>k. browser_gone) example_code 1)
     = Inl (Rejected (ascii ''Target closed''))
   \<and> snd (processBatch checker_cn fs_ready (\<lambda>i k. browser_gone) example_codes)
       = Inl (Rejected (ascii ''Target closed''))
   \<and> redeemBatch checker_cn (\<lambda>i k. browser_gone) example_codes (ascii ''id@example.com'')
        (ascii ''secret'') = Inl (Rejected (ascii ''Target closed''))"
proof -
  have 1: "checkBalance cfg (\<lambda>k. browser_gone) c a = (1, Inl (Rejected (ascii ''Target closed'')))"
    for cfg c a
    by (subst checkBalance.simps) (simp add: example_pages)
  have 2: "redeemCard cfg (\<lambda>k. browser_gone) c appleId password a
      = (1, Inl (Rejected (ascii ''Target closed'')))" for cfg c appleId password a
    by (subst redeemCard.simps) (simp add: example_pages)
  have 3: "processBatch_loop this (\<lambda>i k. browser_gone) example_codes 0
      = (this, Some (Rejected (ascii ''Target closed'')))" for this
    by (subst processBatch_loop.simps) (simp add: 1 example_codes_def)
  have 4: "redeemBatch_loop this (\<lambda>i k. browser_gone) example_codes appleId password 0 []
      = Inl (Rejected (ascii ''Target closed''))" for this appleId password
    by (subst redeemBatch_loop.simps) (simp add: 2 example_codes_def)
  show ?thesis
    by (simp add: 1 3 4 processBatch_def redeemBatch_def fs_ready_def)
qed

text \<open>
  C1 (amended): whenever \<open>processBatch\<close> (and likewise \<open>redeemBatch\<close>) returns, the list it
  returns has the length of the input list and its i-th record is the record that
  \<open>checkBalance\<close> (\<open>redeemCard\<close>) produced for the i-th code, and for \<open>processBatch\<close> it is the
  list left in \<open>this.results\<close>.  It does return if the screenshot directory exists or can be
  created and, on every attempt for every code, the page opens and the page closes in the
  error handler: under these conditions \<open>checkBalance\<close> and \<open>redeemCard\<close> return a record.
\<close>

theorem batch_length_and_order:
  "(processBatch this fs world codes = (this', Inr rs) \<longrightarrow>
      results this' = rs \<and> length rs = length codes
      \<and> (\<forall>i<length codes.
            snd (checkBalance (config this) (world i) (codes ! i) 1) = Inr (rs ! i)))
   \<and> (redeemBatch this world codes appleId password = Inr rs' \<longrightarrow>
      length rs' = length codes
      \<and> (\<forall>i<length codes.
            snd (redeemCard (config this) (world i) (codes ! i) appleId password 1)
              = Inr (rs' ! i)))
   \<and> ((\<forall>k. newPage (runs k) = None \<and> closeAfterError (runs k) = None) \<longrightarrow>
        (\<exists>r. snd (checkBalance cfg runs c 1) = Inr r)
        \<and> (\<exists>r. snd (redeemCard cfg runs c appleId password 1) = Inr r))
   \<and> ((\<forall>i<length codes. \<forall>k. newPage (world i k) = None \<and> closeAfterError (world i k) = None)
       \<longrightarrow> (existsSync fs \<or> mkdirSync fs = None
            \<longrightarrow> (\<exists>this'' rs''. processBatch this fs world codes = (this'', Inr rs'')))
         \<and> (\<exists>rs''. redeemBatch this world codes appleId password = Inr rs''))"
proof (intro conjI impI)
  assume ret: "processBatch this fs world codes = (this', Inr rs)"
  then have loop: "processBatch_loop (this\<lparr> results := [] \<rparr>) world codes 0 = (this', None)"
    and rs: "results this' = rs"
    by (auto simp: processBatch_def split: option.splits prod.splits)
  from processBatch_loop_results [OF loop] obtain xs
    where "results this' = xs" "length xs = length codes"
      "\<forall>j<length xs. snd (checkBalance (config this) (world j) (codes ! j) 1) = Inr (xs ! j)"
    by auto
  with rs show "results this' = rs" "length rs = length codes"
    "\<forall>i<length codes. snd (checkBalance (config this) (world i) (codes ! i) 1) = Inr (rs ! i)"
    by auto
next
  assume "redeemBatch this world codes appleId password = Inr rs'"
  then have "redeemBatch_loop this world codes appleId password 0 [] = Inr rs'"
    by (simp add: redeemBatch_def)
  from redeemBatch_loop_results [OF this]
  show "length rs' = length codes"
    "\<forall>i<length codes.
       snd (redeemCard (config this) (world i) (codes ! i) appleId password 1) = Inr (rs' ! i)"
    by auto
next
  assume "\<forall>k. newPage (runs k) = None \<and> closeAfterError (runs k) = None"
  then show "\<exists>r. snd (checkBalance cfg runs c 1) = Inr r"
    "\<exists>r. snd (redeemCard cfg runs c appleId password 1) = Inr r"
    by (rule checkBalance_returns, rule redeemCard_returns)
next
  assume ok: "\<forall>i<length codes. \<forall>k. newPage (world i k) = None \<and> closeAfterError (world i k) = None"
  then have "\<forall>j<length codes.
      \<exists>r. snd (checkBalance (config (this\<lparr> results := [] \<rparr>)) (world j) (codes ! j) 1) = Inr r"
    by (auto intro: checkBalance_returns)
  from processBatch_loop_returns [OF this]
  obtain this'' where loop: "processBatch_loop (this\<lparr> results := [] \<rparr>) world codes 0 = (this'', None)"
    by blast
  show "\<exists>this'' rs''. processBatch this fs world codes = (this'', Inr rs'')"
    if "existsSync fs \<or> mkdirSync fs = None"
    using that loop by (auto simp: processBatch_def)
  from ok have "\<forall>j<length codes.
      \<exists>r. snd (redeemCard (config this) (world j) (codes ! j) appleId password 1) = Inr r"
    by (auto intro: redeemCard_returns)
  from redeemBatch_loop_returns [OF this]
  show "\<exists>rs''. redeemBatch this world codes appleId password = Inr rs''"
    by (simp add: redeemBatch_def)
qed


lemma checkBalance_try_page_ok:
  "screenshotOnError cfg \<or> \<not> headless cfg \<Longrightarrow>
     checkBalance_try cfg (page_ok pageText) c
       = Inr (parseBalanceResult cfg pageText [] c example_now)"
  by (simp add: checkBalance_try_def locateInput_def page_ok_def possibleSelectors_def
      submitSelectors_def ascii_def)

lemma redeemCard_try_page_ok:
  "screenshotOnError cfg \<or> \<not> headless cfg \<Longrightarrow>
     redeemCard_try cfg (page_ok pageText) c appleId password
       = Inr (parseRedemptionResult cfg pageText [] c example_now)"
  by (simp add: redeemCard_try_def checkIfLoginRequired_def page_ok_def loginIndicators_def
      codeInputSelectors_def redeemButtonSelectors_def ascii_def)

lemma page_ok_opens: "newPage (page_ok pageText) = None" "closeAfterError (page_ok pageText) = None"
  by (simp_all add: page_ok_def)

lemma checkBalance_page_ok:
  "snd (checkBalance cfg_cn (\<lambda>k. page_ok pageText) c attempt)
     = Inr (parseBalanceResult cfg_cn pageText [] c example_now)"
  by (subst checkBalance.simps) (simp add: page_ok_opens checkBalance_try_page_ok cfg_cn_simps)

lemma redeemCard_page_ok:
  "snd (redeemCard cfg_cn (\<lambda>k. page_ok pageText) c appleId password attempt)
     = Inr (parseRedemptionResult cfg_cn pageText [] c example_now)"
  by (subst redeemCard.simps) (simp add: page_ok_opens redeemCard_try_page_ok cfg_cn_simps)

lemma list_of_two: "length xs = 2 \<Longrightarrow> xs = [xs ! 0, xs ! 1]"
  by (cases xs; cases "tl xs") auto

theorem batch_length_and_order_witness:
  "snd (processBatch checker_cn fs_ready (\<lambda>i k. page_ok text_yuan_balance) example_codes)
     = Inr [parseBalanceResult cfg_cn text_yuan_balance [] example_code example_now,
            parseBalanceResult cfg_cn text_yuan_balance [] (ascii ''XNZ3-PMLP-YTNQ-GT7N'')
              example_now]
   \<and> redeemBatch checker_cn (\<lambda>i k. page_ok text_redeemed) example_codes
        (ascii ''id@example.com'') (ascii ''secret'')
     = Inr [parseRedemptionResult cfg_cn text_redeemed [] example_code example_now,
            parseRedemptionResult cfg_cn text_redeemed [] (ascii ''XNZ3-PMLP-YTNQ-GT7N'')
              example_now]"
proof -
  have len: "length example_codes = 2"
    and codes: "example_codes ! 0 = example_code"
      "example_codes ! Suc 0 = ascii ''XNZ3-PMLP-YTNQ-GT7N''"
    by (simp_all add: example_codes_def)
  have cfg: "config checker_cn = cfg_cn"
    by (simp add: checker_cn_def)
  have fs: "existsSync fs_ready \<or> mkdirSync fs_ready = None"
    by (simp add: fs_ready_def)
  have opens: "\<forall>i<length example_codes. \<forall>k.
      newPage ((\<lambda>i k. page_ok t) i k) = None \<and> closeAfterError ((\<lambda>i k. page_ok t) i k) = None"
    for t
    by (simp add: page_ok_opens)
  note lookup = batch_length_and_order
    [where this = checker_cn and fs = fs_ready and world = "\<lambda>i k. page_ok text_yuan_balance"
      and codes = example_codes]
  from lookup opens [of text_yuan_balance] fs
  obtain this'' rs''
    where ret: "processBatch checker_cn fs_ready (\<lambda>i k. page_ok text_yuan_balance) example_codes
      = (this'', Inr rs'')"
    by blast
  with lookup [where this' = this'' and rs = rs'']
  have l1: "length rs'' = length example_codes"
    and a1: "\<forall>i<length example_codes.
      snd (checkBalance (config checker_cn) (\<lambda>k. page_ok text_yuan_balance)
        (example_codes ! i) 1) = Inr (rs'' ! i)"
    by blast+
  from a1 [rule_format, of 0] a1 [rule_format, of 1] l1
  have "length rs'' = 2"
    and "Inr (rs'' ! 0) = snd (checkBalance cfg_cn (\<lambda>k. page_ok text_yuan_balance) example_code 1)"
    and "Inr (rs'' ! 1) = snd (checkBalance cfg_cn (\<lambda>k. page_ok text_yuan_balance)
      (ascii ''XNZ3-PMLP-YTNQ-GT7N'') 1)"
    by (simp_all add: len codes cfg)
  then have 1: "rs'' = [parseBalanceResult cfg_cn text_yuan_balance [] example_code example_now,
      parseBalanceResult cfg_cn text_yuan_balance [] (ascii ''XNZ3-PMLP-YTNQ-GT7N'') example_now]"
    using list_of_two [of rs''] by (simp add: checkBalance_page_ok)
  note redeem = batch_length_and_order
    [where this = checker_cn and world = "\<lambda>i k. page_ok text_redeemed"
      and codes = example_codes and appleId = "ascii ''id@example.com''"
      and password = "ascii ''secret''"]
  from redeem opens [of text_redeemed]
  obtain rs3
    where ret': "redeemBatch checker_cn (\<lambda>i k. page_ok text_redeemed) example_codes
      (ascii ''id@example.com'') (ascii ''secret'') = Inr rs3"
    by blast
  with redeem [where rs' = rs3]
  have l2: "length rs3 = length example_codes"
    and a2: "\<forall>i<length example_codes.
      snd (redeemCard (config checker_cn) (\<lambda>k. page_ok text_redeemed) (example_codes ! i)
        (ascii ''id@example.com'') (ascii ''secret'') 1) = Inr (rs3 ! i)"
    by blast+
  from a2 [rule_format, of 0] a2 [rule_format, of 1] l2
  have "length rs3 = 2"
    and "Inr (rs3 ! 0) = snd (redeemCard cfg_cn (\<lambda>k. page_ok text_redeemed) example_code
      (ascii ''id@example.com'') (ascii ''secret'') 1)"
    and "Inr (rs3 ! 1) = snd (redeemCard cfg_cn (\<lambda>k. page_ok text_redeemed)
      (ascii ''XNZ3-PMLP-YTNQ-GT7N'') (ascii ''id@example.com'') (ascii ''secret'') 1)"
    by (simp_all add: len codes cfg)
  then have 2: "rs3 = [parseRedemptionResult cfg_cn text_redeemed [] example_code example_now,
      parseRedemptionResult cfg_cn text_redeemed [] (ascii ''XNZ3-PMLP-YTNQ-GT7N'') example_now]"
    using list_of_two [of rs3] by (simp add: redeemCard_page_ok)
  from ret ret' 1 2 show ?thesis
    by simp
qed

subsection \<open>Saving the results\<close>

lemma saveResults_output_counts:
  "total_cards (output_metadata (saveResults_output this now)) = length (results this)"
  "valid_cards (output_metadata (saveResults_output this now))
     = length (filter (\<lambda>r. status r = status_valid) (results this))"
  "invalid_cards (output_metadata (saveResults_output this now))
     = length (filter (\<lambda>r. status r = status_invalid) (results this))"
  "redeemed_cards (output_metadata (saveResults_output this now))
     = length (filter (\<lambda>r. status r = status_redeemed) (results this))"
  "error_cards (output_metadata (saveResults_output this now))
     = length (filter (\<lambda>r. status r = status_error) (results this))"
  "output_results (saveResults_output this now) = results this"
  by (simp_all add: saveResults_output_def count_status_def)

lemma foldl_append_rows:
  "foldl (\<lambda>csv r. csv @ f r) acc rs = acc @ concat (map f rs)"
  by (induction rs arbitrary: acc) simp_all

lemma saveCSV_rows: "saveCSV this = csv_header @ concat (map csv_row (results this))"
  by (simp add: saveCSV_def foldl_append_rows)

lemma csv_row_quoted:
  "csv_row r =
     quoted (code r) @ [44] @ quoted (status r) @ [44] @ quoted (or_empty (balance r)) @ [44]
     @ quoted (or_empty (currency r)) @ [44] @ quoted (or_empty (message r)) @ [44]
     @ quoted (timestamp r) @ [10]"
  by (simp add: csv_row_def csv_fields_def)

lemma unknown_record:
  "parseBalanceResult cfg [] [] c now =
     \<lparr> code = maskCode c, status = status_unknown, message = Some msg_cannot_parse,
       timestamp = now, balance = None, currency = None \<rparr>"
  by (simp add: parseBalanceResult_no_error [OF no_match_empty(1)] no_match_empty)

text \<open>
  C8 asks for a count of every status category in the metadata block that \<open>saveResults\<close>
  writes, the unknown category included.  The block has the total and a count for the valid,
  the invalid, the redeemed and the error status, and none for the unknown status, which
  \<open>printSummary\<close> does count: for a checker whose only record has the unknown status the
  four counts are zero, the total is one, and \<open>printSummary\<close> counts one unknown record.  The
  result list follows the metadata unchanged.
\<close>

theorem saveResults_omits_unknown:
  "map status (results checker_one_unknown) = [status_unknown]
   \<and> output_metadata (saveResults_output checker_one_unknown example_now)
       = \<lparr> generated_at = example_now, total_cards = 1, valid_cards = 0, invalid_cards = 0,
           redeemed_cards = 0, error_cards = 0 \<rparr>
   \<and> stats_unknown (printSummary checker_one_unknown) = 1
   \<and> output_results (saveResults_output checker_one_unknown example_now)
       = results checker_one_unknown"
  by (simp add: checker_one_unknown_def unknown_record saveResults_output_def printSummary_def
      count_status_def status_distinct status_distinct [symmetric])
     (simp add: js_eval)

end
